theory Spec2Isabelle
  imports Complex_Main "HOL-Library.Log_Nat"
begin

unbundle bit_operations_syntax

section \<open>Z-Wave lights: \<^verbatim>\<open>homeassistant/components/light/zwave.py\<close>\<close>

text \<open>
  A shallow embedding of the Z-Wave dimmer and colour light. Objects are records, the
  subclass is a record extension, and every mutation returns the updated record. A
  method that raises returns \<open>Inl (e, self)\<close>: the exception together with the object
  as the assignments before the exception have left it, since the entity lives on.
  Every call to the Z-Wave node, the logger or the host is appended to the field
  \<open>calls\<close>. Time is a rational number of seconds, and the handlers run one after the
  other: a handler and the callback of a timer never interleave.

  A Python number is modelled by the rational number it denotes. The results of
  true division and of arithmetic with a \<^verbatim>\<open>float\<close> are rounded as the IEEE double
  arithmetic of Python rounds them; overflow and underflow, which need magnitudes
  beyond \<open>2 ^ 1023\<close> or below \<open>1 / 2 ^ 1022\<close>, are left out.
\<close>

subsection \<open>Constants and collaborators\<close>

definition COLOR_CHANNEL_WARM_WHITE :: int where "COLOR_CHANNEL_WARM_WHITE = 0x01"
definition COLOR_CHANNEL_COLD_WHITE :: int where "COLOR_CHANNEL_COLD_WHITE = 0x02"
definition COLOR_CHANNEL_RED :: int where "COLOR_CHANNEL_RED = 0x04"
definition COLOR_CHANNEL_GREEN :: int where "COLOR_CHANNEL_GREEN = 0x08"
definition COLOR_CHANNEL_BLUE :: int where "COLOR_CHANNEL_BLUE = 0x10"

text \<open>
  \<^verbatim>\<open>homeassistant.util.color\<close> is imported by the module and is not part of the
  sources at hand: its two bounds (in mireds) and its two conversion functions are
  parameters of the model. \<^verbatim>\<open>color_temperature_to_rgb\<close> returns a tuple, which \<^verbatim>\<open>ct_to_rgb\<close>
  turns into a list.
\<close>

record color_util =
  HASS_COLOR_MAX :: rat
  HASS_COLOR_MIN :: rat
  color_temperature_mired_to_kelvin :: "rat \<Rightarrow> rat"
  color_temperature_to_rgb :: "rat \<Rightarrow> rat list"

datatype power_state = STATE_ON | STATE_OFF

datatype py_error = ValueError | TypeError | ZeroDivisionError

text \<open>
  What the entity does to the outside: writes to the Z-Wave node (with the value id
  and the argument), the refresh request issued by the timer callback (with the time
  at which it is issued), the logger's warning and the host's state-changed callback.
\<close>

datatype call =
    Set_dimmer nat int
  | Set_rgbw nat string
  | Value_refresh nat rat
  | Log_warning
  | Update_ha_state

text \<open>
  The node's two writes answer with a boolean. The answers are the environment's, so
  the node is a parameter.
\<close>

record zwave_node =
  set_dimmer :: "nat \<Rightarrow> int \<Rightarrow> bool"
  set_rgbw :: "nat \<Rightarrow> string \<Rightarrow> bool"

text \<open>
  The live data of the three Z-Wave values an entity reads in \<^verbatim>\<open>update_properties\<close>:
  \<^verbatim>\<open>self._value.data\<close>, \<^verbatim>\<open>self._value_color.data\<close> and
  \<^verbatim>\<open>self._value_color_channels.data\<close>.
\<close>

record zwave_values =
  value_data :: int
  value_color_data :: string
  value_color_channels_data :: int

text \<open>The keyword arguments of \<^verbatim>\<open>turn_on\<close>; \<open>None\<close> is a key that is absent.\<close>

record kwargs =
  ATTR_BRIGHTNESS :: "rat option"
  ATTR_COLOR_TEMP :: "rat option"
  ATTR_RGB_COLOR :: "int list option"

subsection \<open>Python numbers\<close>

text \<open>
  The double nearest to a rational \<open>x\<close>: with \<open>pow2 e \<le> \<bar>x\<bar> < pow2 (e + 1)\<close>, the
  doubles around \<open>x\<close> are the multiples of \<open>pow2 (e - 52)\<close>, and \<open>x\<close> is rounded to
  the nearest of them, a tie going to the even multiple. \<open>exponent\<close> finds \<open>e\<close> from the bit
  lengths of the numerator and the denominator, which give it up to one.
\<close>

definition pow2 :: "int \<Rightarrow> rat" where
  "pow2 e = (if 0 \<le> e then 2 ^ nat e else 1 / 2 ^ nat (- e))"

definition exponent :: "rat \<Rightarrow> int" where
  "exponent x =
     (case quotient_of \<bar>x\<bar> of
        (n, d) \<Rightarrow>
          (let e = bitlen n - bitlen d
           in if pow2 e \<le> \<bar>x\<bar> then e else e - 1))"

definition round_even :: "rat \<Rightarrow> int" where
  "round_even q =
     (let f = \<lfloor>q\<rfloor>; r = q - of_int f
      in if r < 1 / 2 then f
         else if 1 / 2 < r then f + 1
         else if even f then f else f + 1)"

definition round_double :: "rat \<Rightarrow> rat" where
  "round_double x =
     (if x = 0 then 0
      else (let ulp = pow2 (exponent x - 52)
            in of_int (round_even (x / ulp)) * ulp))"

text \<open>
  The four operations on numbers that are doubles or integers below \<open>2 ^ 53\<close>: the
  exact result, rounded. (On two such integers \<^verbatim>\<open>+\<close>, \<^verbatim>\<open>-\<close> and \<^verbatim>\<open>*\<close> are exact in
  Python, and so they are here as long as the result stays below \<open>2 ^ 53\<close>.) The
  divisor is not zero where the module divides by a constant; where it divides by the
  difference of the two bounds, the model tests it.
\<close>

definition float_add :: "rat \<Rightarrow> rat \<Rightarrow> rat" where
  "float_add a b = round_double (a + b)"

definition float_sub :: "rat \<Rightarrow> rat \<Rightarrow> rat" where
  "float_sub a b = round_double (a - b)"

definition float_mul :: "rat \<Rightarrow> rat \<Rightarrow> rat" where
  "float_mul a b = round_double (a * b)"

definition float_div :: "rat \<Rightarrow> rat \<Rightarrow> rat" where
  "float_div a b = round_double (a / b)"

text \<open>\<^verbatim>\<open>int(x)\<close> of a number: truncation towards zero.\<close>

definition py_int :: "rat \<Rightarrow> int" where
  "py_int x = (if 0 \<le> x then \<lfloor>x\<rfloor> else \<lceil>x\<rceil>)"

definition TEMP_MID_HASS :: "color_util \<Rightarrow> rat" where
  "TEMP_MID_HASS cu =
     float_add (float_div (float_sub (HASS_COLOR_MAX cu) (HASS_COLOR_MIN cu)) 2)
       (HASS_COLOR_MIN cu)"

definition TEMP_WARM_HASS :: "color_util \<Rightarrow> rat" where
  "TEMP_WARM_HASS cu =
     float_add (float_mul (float_div (float_sub (HASS_COLOR_MAX cu) (HASS_COLOR_MIN cu)) 3) 2)
       (HASS_COLOR_MIN cu)"

definition TEMP_COLD_HASS :: "color_util \<Rightarrow> rat" where
  "TEMP_COLD_HASS cu =
     float_add (float_div (float_sub (HASS_COLOR_MAX cu) (HASS_COLOR_MIN cu)) 3)
       (HASS_COLOR_MIN cu)"

subsection \<open>Python strings\<close>

text \<open>\<^verbatim>\<open>data[i:j]\<close> for \<open>0 \<le> i \<le> j\<close>: a slice never raises, it is cut at the end.\<close>

definition slice :: "string \<Rightarrow> nat \<Rightarrow> nat \<Rightarrow> string" where
  "slice data i j = take (j - i) (drop i data)"

text \<open>
  \<^verbatim>\<open>int(s, 16)\<close> of a string: white space around the literal is dropped, one sign
  is allowed, then at least one hexadecimal digit in either case and nothing else;
  anything else raises \<^verbatim>\<open>ValueError\<close>. The module only parses slices of at most
  two characters. In such a slice neither a \<^verbatim>\<open>0x\<close> prefix nor an underscore between
  digits can be part of a valid literal, so the model leaves both out; and the
  white space that can stand beside a digit is the characters 9 to 13 and 32, and
  the two of Latin-1 beyond ASCII, 133 and 160. (The separators 28 to 31 count as
  white space only in a string that also has a character beyond ASCII, which leaves
  no room for a digit: beside a digit they raise \<^verbatim>\<open>ValueError\<close>.)
\<close>

definition is_space :: "char \<Rightarrow> bool" where
  "is_space c = (let n = (of_char c :: nat) in
     (9 \<le> n \<and> n \<le> 13) \<or> n = 32 \<or> n = 133 \<or> n = 160)"

definition hex_digit :: "char \<Rightarrow> int option" where
  "hex_digit c = (let n = (of_char c :: nat) in
     if 48 \<le> n \<and> n \<le> 57 then Some (int n - 48)
     else if 97 \<le> n \<and> n \<le> 102 then Some (int n - 87)
     else if 65 \<le> n \<and> n \<le> 70 then Some (int n - 55)
     else None)"

fun hex_digits :: "int \<Rightarrow> string \<Rightarrow> int option" where
  "hex_digits acc [] = Some acc"
| "hex_digits acc (c # cs) =
     (case hex_digit c of None \<Rightarrow> None | Some d \<Rightarrow> hex_digits (16 * acc + d) cs)"

definition strip :: "string \<Rightarrow> string" where
  "strip s = rev (dropWhile is_space (rev (dropWhile is_space s)))"

definition py_int16 :: "string \<Rightarrow> py_error + int" where
  "py_int16 s =
     (case strip s of
        [] \<Rightarrow> Inl ValueError
      | c # cs \<Rightarrow>
          (let neg = (c = CHR ''-'');
               ds = (if c = CHR ''-'' \<or> c = CHR ''+'' then cs else c # cs)
           in if ds = [] then Inl ValueError
              else (case hex_digits 0 ds of
                      None \<Rightarrow> Inl ValueError
                    | Some v \<Rightarrow> Inr (if neg then - v else v))))"

text \<open>
  \<^verbatim>\<open>format(n)\<close> of an \<^verbatim>\<open>int\<close>: its decimal digits, with a minus sign when negative.
  \<^verbatim>\<open>format(n, '02x')\<close>: its lower-case hexadecimal digits, zero-padded to width two,
  the sign counting for the width.
\<close>

definition digit_char :: "nat \<Rightarrow> char" where
  "digit_char d = (if d < 10 then char_of (48 + d) else char_of (87 + d))"

function dec_digits :: "nat \<Rightarrow> string \<Rightarrow> string" where
  "dec_digits n acc =
     (if n < 10 then digit_char n # acc
      else dec_digits (n div 10) (digit_char (n mod 10) # acc))"
  by pat_completeness auto
termination
  by (relation "measure fst") auto

function hex_digits_of :: "nat \<Rightarrow> string \<Rightarrow> string" where
  "hex_digits_of n acc =
     (if n < 16 then digit_char n # acc
      else hex_digits_of (n div 16) (digit_char (n mod 16) # acc))"
  by pat_completeness auto
termination
  by (relation "measure fst") auto

definition format_int :: "int \<Rightarrow> string" where
  "format_int n =
     (if n < 0 then CHR ''-'' # dec_digits (nat (- n)) []
      else dec_digits (nat n) [])"

definition format_02x :: "int \<Rightarrow> string" where
  "format_02x n =
     (if n < 0 then CHR ''-'' # hex_digits_of (nat (- n)) []
      else (let ds = hex_digits_of (nat n) []
            in if length ds < 2 then CHR ''0'' # ds else ds))"

subsection \<open>\<^verbatim>\<open>brightness_state\<close>\<close>

definition brightness_state :: "int \<Rightarrow> rat \<times> power_state" where
  "brightness_state data =
     (if data > 0 then (float_mul (float_div (of_int data) 99) 255, STATE_ON)
      else (255, STATE_OFF))"

subsection \<open>\<^verbatim>\<open>ZwaveDimmer\<close>\<close>

text \<open>
  A \<^verbatim>\<open>threading.Timer\<close> is a thread of its own: once started it waits for its
  interval and then runs its callback, unless \<^verbatim>\<open>cancel()\<close> was called while it
  waited. \<^verbatim>\<open>isAlive()\<close> is true of a timer that waits.
\<close>

datatype timer_status = Waiting | Cancelled | Fired

record py_timer =
  due :: rat
  status :: timer_status

text \<open>
  \<open>timers\<close> holds the timers that the entity has started, the newest first, each
  with the time at which it is due. \<^verbatim>\<open>self._timer\<close> is the head of the list: it is
  \<^verbatim>\<open>None\<close> in \<^verbatim>\<open>__init__\<close>, and the only other assignment to it is the timer that is
  started next. The older timers stay in the list, and a timer that waits runs its
  callback when it is due whether \<^verbatim>\<open>self._timer\<close> still refers to it or not.
\<close>

record zwave_dimmer =
  value_id :: nat
  brightness :: "rat option"
  state :: "power_state option"
  refreshing :: bool
  timers :: "py_timer list"
  calls :: "call list"

type_synonym 's outcome = "(py_error \<times> 's) + 's"

text \<open>The object that a call leaves, with or without an exception.\<close>

definition after :: "'s outcome \<Rightarrow> 's" where
  "after r = (case r of Inl (e, self) \<Rightarrow> self | Inr self \<Rightarrow> self)"

text \<open>
  \<^verbatim>\<open>update_properties\<close> of the dimmer. The functions of the dimmer are written over
  the record scheme, so that the colour light inherits them.
\<close>

definition dimmer_update_properties ::
  "zwave_values \<Rightarrow> 'a zwave_dimmer_scheme \<Rightarrow> 'a zwave_dimmer_scheme" where
  "dimmer_update_properties vals self =
     (case brightness_state (value_data vals) of
        (b, s) \<Rightarrow> self\<lparr>brightness := Some b, state := Some s\<rparr>)"

text \<open>
  \<^verbatim>\<open>__init__\<close>: \<^verbatim>\<open>self.update_properties()\<close> is dispatched on the class of the
  object, so the method is an argument; for the colour light it may raise, and then
  there is no object.
\<close>

definition ZwaveDimmer_init ::
  "('a zwave_dimmer_scheme \<Rightarrow> 'a zwave_dimmer_scheme outcome) \<Rightarrow>
   'a zwave_dimmer_scheme \<Rightarrow> py_error + 'a zwave_dimmer_scheme" where
  "ZwaveDimmer_init update_properties self =
     (case update_properties (self\<lparr>brightness := None, state := None\<rparr>) of
        Inl (e, self') \<Rightarrow> Inl e
      | Inr self' \<Rightarrow> Inr (self'\<lparr>refreshing := False, timers := []\<rparr>))"

definition new_dimmer :: "nat \<Rightarrow> zwave_values \<Rightarrow> py_error + zwave_dimmer" where
  "new_dimmer vid vals =
     ZwaveDimmer_init (\<lambda>self. Inr (dimmer_update_properties vals self))
       \<lparr>value_id = vid, brightness = None, state = None, refreshing = False,
        timers = [], calls = []\<rparr>"

text \<open>The timer's callback \<^verbatim>\<open>_refresh_value\<close>, run at time \<open>now\<close>.\<close>

definition refresh_value :: "rat \<Rightarrow> 'a zwave_dimmer_scheme \<Rightarrow> 'a zwave_dimmer_scheme" where
  "refresh_value now self =
     self\<lparr>refreshing := True, calls := calls self @ [Value_refresh (value_id self) now]\<rparr>"

text \<open>
  \<^verbatim>\<open>self._timer.isAlive()\<close> and \<^verbatim>\<open>self._timer.cancel()\<close>, for a \<^verbatim>\<open>self._timer\<close>
  that is not \<^verbatim>\<open>None\<close>: a cancelled timer will not run its callback.
\<close>

definition is_alive :: "py_timer \<Rightarrow> bool" where
  "is_alive t = (status t = Waiting)"

definition cancel :: "py_timer \<Rightarrow> py_timer" where
  "cancel t = (if status t = Waiting then t\<lparr>status := Cancelled\<rparr> else t)"

text \<open>
  \<^verbatim>\<open>_value_changed(value)\<close>, called at time \<open>now\<close> with a value whose id is \<open>vid\<close>.
  \<^verbatim>\<open>Timer(2, _refresh_value)\<close> started at \<open>now\<close> is due at \<open>now + 2\<close>. When
  \<^verbatim>\<open>update_properties\<close> raises, the exception leaves the method before
  \<^verbatim>\<open>update_ha_state\<close>.
\<close>

definition value_changed ::
  "('a zwave_dimmer_scheme \<Rightarrow> 'a zwave_dimmer_scheme outcome) \<Rightarrow>
   nat \<Rightarrow> rat \<Rightarrow> 'a zwave_dimmer_scheme \<Rightarrow> 'a zwave_dimmer_scheme outcome" where
  "value_changed update_properties vid now self =
     (if value_id self \<noteq> vid then Inr self
      else if refreshing self
      then
        (case update_properties (self\<lparr>refreshing := False\<rparr>) of
           Inl (e, self') \<Rightarrow> Inl (e, self')
         | Inr self' \<Rightarrow> Inr (self'\<lparr>calls := calls self' @ [Update_ha_state]\<rparr>))
      else
        (let self1 =
           (case timers self of
              [] \<Rightarrow> self
            | t # older \<Rightarrow> if is_alive t then self\<lparr>timers := cancel t # older\<rparr> else self);
             self2 = self1\<lparr>timers := \<lparr>due = now + 2, status = Waiting\<rparr> # timers self1\<rparr>
         in Inr (self2\<lparr>calls := calls self2 @ [Update_ha_state]\<rparr>)))"

text \<open>
  Time passing up to \<open>now\<close>: every timer that waits and is due has run its callback,
  at the time it was due, and is no longer alive. \<open>fire_due\<close> gives the timers
  afterwards and the times of the callbacks, the oldest timer first.
\<close>

fun fire_due :: "rat \<Rightarrow> py_timer list \<Rightarrow> py_timer list \<times> rat list" where
  "fire_due now [] = ([], [])"
| "fire_due now (t # older) =
     (case fire_due now older of
        (older', fired) \<Rightarrow>
          if status t = Waiting \<and> due t \<le> now
          then (t\<lparr>status := Fired\<rparr> # older', fired @ [due t])
          else (t # older', fired))"

definition elapse :: "rat \<Rightarrow> 'a zwave_dimmer_scheme \<Rightarrow> 'a zwave_dimmer_scheme" where
  "elapse now self =
     (case fire_due now (timers self) of
        (ts, fired) \<Rightarrow> fold refresh_value fired (self\<lparr>timers := ts\<rparr>))"

text \<open>A notification that arrives at time \<open>now\<close>, after all that was due before.\<close>

definition notify ::
  "('a zwave_dimmer_scheme \<Rightarrow> 'a zwave_dimmer_scheme outcome) \<Rightarrow>
   nat \<Rightarrow> rat \<Rightarrow> 'a zwave_dimmer_scheme \<Rightarrow> 'a zwave_dimmer_scheme outcome" where
  "notify update_properties vid now self =
     value_changed update_properties vid now (elapse now self)"

text \<open>
  A run of notifications for one value id, at the given times. An exception goes to
  the caller of the handler and the entity lives on.
\<close>

fun notify_all ::
  "('a zwave_dimmer_scheme \<Rightarrow> 'a zwave_dimmer_scheme outcome) \<Rightarrow>
   nat \<Rightarrow> rat list \<Rightarrow> 'a zwave_dimmer_scheme \<Rightarrow> 'a zwave_dimmer_scheme" where
  "notify_all update_properties vid [] self = self"
| "notify_all update_properties vid (t # ts) self =
     notify_all update_properties vid ts (after (notify update_properties vid t self))"

text \<open>The property \<^verbatim>\<open>is_on\<close> of the entity.\<close>

definition is_on :: "'a zwave_dimmer_scheme \<Rightarrow> bool" where
  "is_on self = (state self = Some STATE_ON)"

text \<open>
  \<^verbatim>\<open>ZwaveDimmer.turn_on\<close>. A brightness of \<^verbatim>\<open>None\<close> cannot be divided:
  \<^verbatim>\<open>TypeError\<close>.
\<close>

definition dimmer_turn_on ::
  "zwave_node \<Rightarrow> kwargs \<Rightarrow> 'a zwave_dimmer_scheme \<Rightarrow> 'a zwave_dimmer_scheme outcome" where
  "dimmer_turn_on node kw self0 =
     (let self1 = (case ATTR_BRIGHTNESS kw of
                     Some b \<Rightarrow> self0\<lparr>brightness := Some b\<rparr>
                   | None \<Rightarrow> self0)
      in case brightness self1 of
           None \<Rightarrow> Inl (TypeError, self1)
         | Some b \<Rightarrow>
             (let level = py_int (float_mul (float_div b 255) 99);
                  self2 = self1\<lparr>calls := calls self1 @ [Set_dimmer (value_id self1) level]\<rparr>
              in Inr (if set_dimmer node (value_id self1) level
                      then self2\<lparr>state := Some STATE_ON\<rparr>
                      else self2)))"

definition dimmer_turn_off ::
  "zwave_node \<Rightarrow> 'a zwave_dimmer_scheme \<Rightarrow> 'a zwave_dimmer_scheme" where
  "dimmer_turn_off node self =
     (let self1 = self\<lparr>calls := calls self @ [Set_dimmer (value_id self) 0]\<rparr>
      in if set_dimmer node (value_id self) 0
         then self1\<lparr>state := Some STATE_OFF\<rparr>
         else self1)"

subsection \<open>\<^verbatim>\<open>ZwaveColorLight\<close>\<close>

definition ct_to_rgb :: "color_util \<Rightarrow> rat \<Rightarrow> int list" where
  "ct_to_rgb cu temp =
     map py_int (color_temperature_to_rgb cu (color_temperature_mired_to_kelvin cu temp))"

record zwave_color_light = zwave_dimmer +
  value_color_id :: nat
  color_channels :: "int option"
  rgb :: "int list option"
  ct :: "rat option"

text \<open>
  \<^verbatim>\<open>ZwaveColorLight.update_properties\<close>. Each \<^verbatim>\<open>int(..., 16)\<close> may raise
  \<^verbatim>\<open>ValueError\<close>: in the list of the three colour bytes, before \<^verbatim>\<open>self._rgb\<close> is
  assigned, or at a white byte, after it. \<^verbatim>\<open>self._ct\<close> is assigned only in the
  branches of a device with a white channel.
\<close>

definition color_update_properties ::
  "color_util \<Rightarrow> zwave_values \<Rightarrow> zwave_color_light \<Rightarrow> zwave_color_light outcome" where
  "color_update_properties cu vals self0 =
     (let self1 = dimmer_update_properties vals self0;
          channels = value_color_channels_data vals;
          self2 = self1\<lparr>color_channels := Some channels\<rparr>;
          data = value_color_data vals
      in
      (case py_int16 (slice data 1 3) of Inl e \<Rightarrow> Inl (e, self2) | Inr r \<Rightarrow>
      (case py_int16 (slice data 3 5) of Inl e \<Rightarrow> Inl (e, self2) | Inr g \<Rightarrow>
      (case py_int16 (slice data 5 7) of Inl e \<Rightarrow> Inl (e, self2) | Inr b \<Rightarrow>
      (let self3 = self2\<lparr>rgb := Some [r, g, b]\<rparr>;
           index0 = 7
       in
       (case (if (channels AND COLOR_CHANNEL_WARM_WHITE) \<noteq> 0
              then (case py_int16 (slice data index0 (index0 + 2)) of
                      Inl e \<Rightarrow> Inl e
                    | Inr w \<Rightarrow> Inr (w, index0 + 2))
              else Inr (0, index0)) of
          Inl e \<Rightarrow> Inl (e, self3)
        | Inr (warm_white, index1) \<Rightarrow>
       (case (if (channels AND COLOR_CHANNEL_COLD_WHITE) \<noteq> 0
              then (case py_int16 (slice data index1 (index1 + 2)) of
                      Inl e \<Rightarrow> Inl e
                    | Inr c \<Rightarrow> Inr (c, index1 + 2))
              else Inr (0, index1)) of
          Inl e \<Rightarrow> Inl (e, self3)
        | Inr (cold_white, index2) \<Rightarrow>
       (let self4 =
          (if (channels AND COLOR_CHANNEL_WARM_WHITE) \<noteq> 0 \<and>
              (channels AND COLOR_CHANNEL_COLD_WHITE) \<noteq> 0
           then
             (if warm_white > 0
              then self3\<lparr>rgb := Some (ct_to_rgb cu (TEMP_WARM_HASS cu)),
                         ct := Some (TEMP_WARM_HASS cu)\<rparr>
              else if cold_white > 0
              then self3\<lparr>rgb := Some (ct_to_rgb cu (TEMP_COLD_HASS cu)),
                         ct := Some (TEMP_COLD_HASS cu)\<rparr>
              else self3\<lparr>ct := Some (TEMP_MID_HASS cu)\<rparr>)
           else if (channels AND COLOR_CHANNEL_WARM_WHITE) \<noteq> 0
           then
             (let t = float_add (HASS_COLOR_MIN cu)
                        (float_mul (float_sub (HASS_COLOR_MAX cu) (HASS_COLOR_MIN cu))
                           (float_div (of_int warm_white) 255))
              in self3\<lparr>rgb := Some (ct_to_rgb cu t), ct := Some t\<rparr>)
           else if (channels AND COLOR_CHANNEL_COLD_WHITE) \<noteq> 0
           then
             (let t = float_add (HASS_COLOR_MIN cu)
                        (float_mul (float_sub (HASS_COLOR_MAX cu) (HASS_COLOR_MIN cu))
                           (float_div (of_int (255 - cold_white)) 255))
              in self3\<lparr>rgb := Some (ct_to_rgb cu t), ct := Some t\<rparr>)
           else self3)
        in Inr (if \<not> ((channels AND COLOR_CHANNEL_RED) \<noteq> 0 \<or>
                       (channels AND COLOR_CHANNEL_GREEN) \<noteq> 0 \<or>
                       (channels AND COLOR_CHANNEL_BLUE) \<noteq> 0)
                then self4\<lparr>rgb := None\<rparr>
                else self4)))))))))"

text \<open>
  \<^verbatim>\<open>ZwaveColorLight.__init__\<close>. The colour value with the instance of the dimmer
  value and the value of the colour channels are looked up on the node: \<open>vcolor\<close> is
  the id of the former when there is one, \<open>has_channels\<close> tells whether the latter
  was found.
\<close>

definition new_color_light ::
  "color_util \<Rightarrow> nat \<Rightarrow> nat option \<Rightarrow> bool \<Rightarrow> zwave_values \<Rightarrow> py_error + zwave_color_light" where
  "new_color_light cu vid vcolor has_channels vals =
     (case vcolor of
        None \<Rightarrow> Inl ValueError
      | Some cid \<Rightarrow>
          if \<not> has_channels then Inl ValueError
          else ZwaveDimmer_init (color_update_properties cu vals)
                 \<lparr>value_id = vid, brightness = None, state = None, refreshing = False,
                  timers = [], calls = [], value_color_id = cid, color_channels = None,
                  rgb = None, ct = None\<rparr>)"

text \<open>
  \<^verbatim>\<open>ZwaveColorLight.turn_on\<close>. The first component of the pair is the object after
  the branch, the second is \<^verbatim>\<open>rgbw\<close>. \<^verbatim>\<open>None & 1\<close> raises \<^verbatim>\<open>TypeError\<close>, a
  division by \<^verbatim>\<open>HASS_COLOR_MAX - HASS_COLOR_MIN = 0\<close> raises
  \<^verbatim>\<open>ZeroDivisionError\<close>. The answer of \<^verbatim>\<open>set_rgbw\<close> is dropped.
\<close>

definition color_turn_on ::
  "color_util \<Rightarrow> zwave_node \<Rightarrow> kwargs \<Rightarrow> zwave_color_light \<Rightarrow> zwave_color_light outcome" where
  "color_turn_on cu node kw self0 =
     (case
        (case ATTR_COLOR_TEMP kw of
           Some temp_arg \<Rightarrow>
             (case color_channels self0 of
                None \<Rightarrow> Inl (TypeError, self0)
              | Some channels \<Rightarrow>
                  if (channels AND COLOR_CHANNEL_WARM_WHITE) \<noteq> 0 \<and>
                     (channels AND COLOR_CHANNEL_COLD_WHITE) \<noteq> 0
                  then
                    (if temp_arg > TEMP_MID_HASS cu
                     then Inr (self0\<lparr>ct := Some (TEMP_WARM_HASS cu)\<rparr>, Some ''#000000FF00'')
                     else Inr (self0\<lparr>ct := Some (TEMP_COLD_HASS cu)\<rparr>, Some ''#00000000FF''))
                  else if (channels AND COLOR_CHANNEL_WARM_WHITE) \<noteq> 0
                  then
                    (if float_sub (HASS_COLOR_MAX cu) (HASS_COLOR_MIN cu) = 0
                     then Inl (ZeroDivisionError, self0)
                     else
                       (let temp = float_mul
                                     (float_div (float_sub temp_arg (HASS_COLOR_MIN cu))
                                        (float_sub (HASS_COLOR_MAX cu) (HASS_COLOR_MIN cu)))
                                     255
                        in Inr (self0, Some (''#000000'' @ format_int (py_int temp)))))
                  else if (channels AND COLOR_CHANNEL_COLD_WHITE) \<noteq> 0
                  then
                    (if float_sub (HASS_COLOR_MAX cu) (HASS_COLOR_MIN cu) = 0
                     then Inl (ZeroDivisionError, self0)
                     else
                       (let temp = float_sub 255
                                     (float_mul
                                        (float_div (float_sub temp_arg (HASS_COLOR_MIN cu))
                                           (float_sub (HASS_COLOR_MAX cu) (HASS_COLOR_MIN cu)))
                                        255)
                        in Inr (self0, Some (''#000000'' @ format_int (py_int temp)))))
                  else Inr (self0, None))
         | None \<Rightarrow>
             (case ATTR_RGB_COLOR kw of
                Some color \<Rightarrow>
                  Inr (self0\<lparr>rgb := Some color\<rparr>,
                       Some (''#'' @ concat (map format_02x color) @ ''0000''))
              | None \<Rightarrow> Inr (self0, None))) of
        Inl err \<Rightarrow> Inl err
      | Inr (self1, rgbw) \<Rightarrow>
          (let self2 =
             (case rgbw of
                None \<Rightarrow> self1\<lparr>calls := calls self1 @ [Log_warning]\<rparr>
              | Some payload \<Rightarrow>
                  self1\<lparr>calls := calls self1 @ [Set_rgbw (value_color_id self1) payload]\<rparr>)
           in dimmer_turn_on node kw self2))"

subsection \<open>Runs of an entity\<close>

text \<open>
  What happens to an entity after its construction: a change notification at some
  time (with the live data of the values at that time), a call of \<^verbatim>\<open>turn_on\<close> or
  \<^verbatim>\<open>turn_off\<close>, or time passing. The two methods that the colour light overrides
  are arguments. An exception goes to the caller, and the run goes on with the object
  as the exception has left it.
\<close>

datatype event =
    Value_changed nat rat zwave_values
  | Turn_on zwave_node kwargs
  | Turn_off zwave_node
  | Elapse rat

definition step_event ::
  "(zwave_values \<Rightarrow> 'a zwave_dimmer_scheme \<Rightarrow> 'a zwave_dimmer_scheme outcome) \<Rightarrow>
   (zwave_node \<Rightarrow> kwargs \<Rightarrow> 'a zwave_dimmer_scheme \<Rightarrow> 'a zwave_dimmer_scheme outcome) \<Rightarrow>
   event \<Rightarrow> 'a zwave_dimmer_scheme \<Rightarrow> 'a zwave_dimmer_scheme" where
  "step_event update_properties turn_on e self =
     (case e of
        Value_changed vid now vals \<Rightarrow> after (notify (update_properties vals) vid now self)
      | Turn_on node kw \<Rightarrow> after (turn_on node kw self)
      | Turn_off node \<Rightarrow> dimmer_turn_off node self
      | Elapse now \<Rightarrow> elapse now self)"

fun run_events ::
  "(zwave_values \<Rightarrow> 'a zwave_dimmer_scheme \<Rightarrow> 'a zwave_dimmer_scheme outcome) \<Rightarrow>
   (zwave_node \<Rightarrow> kwargs \<Rightarrow> 'a zwave_dimmer_scheme \<Rightarrow> 'a zwave_dimmer_scheme outcome) \<Rightarrow>
   event list \<Rightarrow> 'a zwave_dimmer_scheme \<Rightarrow> 'a zwave_dimmer_scheme" where
  "run_events update_properties turn_on [] self = self"
| "run_events update_properties turn_on (e # es) self =
     run_events update_properties turn_on es (step_event update_properties turn_on e self)"

definition dimmer_run :: "event list \<Rightarrow> zwave_dimmer \<Rightarrow> zwave_dimmer" where
  "dimmer_run = run_events (\<lambda>vals self. Inr (dimmer_update_properties vals self)) dimmer_turn_on"

definition color_run :: "color_util \<Rightarrow> event list \<Rightarrow> zwave_color_light \<Rightarrow> zwave_color_light" where
  "color_run cu = run_events (color_update_properties cu) (color_turn_on cu)"

text \<open>The colour channels that the device reports stay \<open>ch\<close> during the events.\<close>

fun channels_fixed :: "int \<Rightarrow> event list \<Rightarrow> bool" where
  "channels_fixed ch [] = True"
| "channels_fixed ch (Value_changed vid now vals # es) =
     (value_color_channels_data vals = ch \<and> channels_fixed ch es)"
| "channels_fixed ch (e # es) = channels_fixed ch es"

text \<open>
  The three states of the refresher, read off the fields that carry them: a refresh
  is in flight, or some timer waits, or neither.
\<close>

datatype phase = IDLE | TIMER_PENDING | REFRESHING

definition phase_of :: "'a zwave_dimmer_scheme \<Rightarrow> phase" where
  "phase_of self =
     (if refreshing self then REFRESHING
      else if list_ex is_alive (timers self) then TIMER_PENDING
      else IDLE)"

text \<open>
  A burst: times that do not decrease, each less than two seconds after the one
  before.
\<close>

fun burst :: "rat list \<Rightarrow> bool" where
  "burst [] = True"
| "burst [t] = True"
| "burst (t # u # ts) = (t \<le> u \<and> u < t + 2 \<and> burst (u # ts))"

definition is_refresh :: "call \<Rightarrow> bool" where
  "is_refresh c = (case c of Value_refresh vid now \<Rightarrow> True | _ \<Rightarrow> False)"

text \<open>
  What the cancellation keeps true of the timers of an entity: at most the newest
  timer waits, and none waits while a refresh is in flight.
\<close>

definition one_timer :: "'a zwave_dimmer_scheme \<Rightarrow> bool" where
  "one_timer self =
     (\<not> list_ex is_alive (tl (timers self)) \<and>
      (refreshing self \<longrightarrow> \<not> list_ex is_alive (timers self)))"

subsection \<open>Sample inputs\<close>

text \<open>
  A host whose bounds are 154 and 500 mireds; the two conversions are stand-ins, no
  statement below depends on them. A node that accepts every write, and one that
  refuses every write. A dimmer and a colour light that are off, at full brightness,
  with no timer started; the colour light has the channels \<open>ch\<close>.
\<close>

definition sample_util :: color_util where
  "sample_util =
     \<lparr>HASS_COLOR_MAX = 500, HASS_COLOR_MIN = 154,
      color_temperature_mired_to_kelvin = (\<lambda>mired. 1000000 / mired),
      color_temperature_to_rgb = (\<lambda>kelvin. [255, kelvin / 100, 0])\<rparr>"

definition node_accepting :: zwave_node where
  "node_accepting = \<lparr>set_dimmer = (\<lambda>vid level. True), set_rgbw = (\<lambda>vid payload. True)\<rparr>"

definition node_refusing :: zwave_node where
  "node_refusing = \<lparr>set_dimmer = (\<lambda>vid level. False), set_rgbw = (\<lambda>vid payload. False)\<rparr>"

definition sample_dimmer :: zwave_dimmer where
  "sample_dimmer =
     \<lparr>value_id = 1, brightness = Some 255, state = Some STATE_OFF, refreshing = False,
      timers = [], calls = []\<rparr>"

definition sample_light :: "int \<Rightarrow> zwave_color_light" where
  "sample_light ch =
     \<lparr>value_id = 1, brightness = Some 255, state = Some STATE_OFF, refreshing = False,
      timers = [], calls = [], value_color_id = 2, color_channels = Some ch,
      rgb = Some [0, 0, 0], ct = None\<rparr>"

definition sample_values :: "string \<Rightarrow> int \<Rightarrow> zwave_values" where
  "sample_values data ch =
     \<lparr>value_data = 0, value_color_data = data, value_color_channels_data = ch\<rparr>"

definition no_kwargs :: kwargs where
  "no_kwargs = \<lparr>ATTR_BRIGHTNESS = None, ATTR_COLOR_TEMP = None, ATTR_RGB_COLOR = None\<rparr>"

section \<open>Properties\<close>

subsection \<open>Rounding to a double\<close>

text \<open>
  \<open>exponent\<close> does not overshoot, so the quotient that \<open>round_double\<close> rounds is at
  least \<open>2 ^ 52\<close> in magnitude: a number that is not zero is not rounded to zero.
\<close>

lemma pow2_power_int: "pow2 e = 2 powi e"
  by (simp add: pow2_def power_int_def field_simps)

lemma pow2_pos: "0 < pow2 e"
  by (simp add: pow2_def)

lemma exponent_le:
  assumes "x \<noteq> 0"
  shows "pow2 (exponent x) \<le> \<bar>x\<bar>"
proof -
  obtain n d where q: "quotient_of \<bar>x\<bar> = (n, d)" by (cases "quotient_of \<bar>x\<bar>")
  have d: "0 < d" using q by (rule quotient_of_denom_pos)
  have x: "\<bar>x\<bar> = of_int n / of_int d" using q by (rule quotient_of_div)
  have n: "0 < n"
  proof (rule ccontr)
    assume "\<not> 0 < n"
    then have "of_int n / (of_int d :: rat) \<le> 0" using d by (simp add: divide_le_0_iff)
    with x assms show False by simp
  qed
  let ?e = "bitlen n - bitlen d"
  show ?thesis
  proof (cases "pow2 ?e \<le> \<bar>x\<bar>")
    case True
    then show ?thesis by (simp add: exponent_def q)
  next
    case False
    have bn: "2 ^ nat (bitlen n - 1) \<le> n" using bitlen_bounds [OF n] by simp
    have bd: "d < 2 ^ nat (bitlen d)" using bitlen_bounds [OF d] by simp
    have n1: "1 \<le> bitlen n" using n bitlen_eq_zero_iff [of n] bitlen_nonneg [of n] by linarith
    have d0: "0 \<le> bitlen d" by (rule bitlen_nonneg)
    have "?e - 1 = (bitlen n - 1) - bitlen d" by simp
    then have "pow2 (?e - 1) = 2 powi (bitlen n - 1) / 2 powi (bitlen d)"
      by (simp only: pow2_power_int) (simp add: power_int_diff)
    also have "\<dots> = (2 ^ nat (bitlen n - 1)) / (2 ^ nat (bitlen d))"
      using n1 d0 by (simp add: power_int_def)
    also have "\<dots> \<le> of_int n / of_int d"
    proof (rule frac_le)
      show "(0::rat) \<le> of_int n" using n by simp
      show "(2::rat) ^ nat (bitlen n - 1) \<le> of_int n"
        using bn by (metis of_int_le_iff of_int_numeral of_int_power)
      show "(0::rat) < of_int d" using d by simp
      show "(of_int d :: rat) \<le> 2 ^ nat (bitlen d)"
        using bd by (metis less_imp_le of_int_le_iff of_int_numeral of_int_power)
    qed
    finally have "pow2 (?e - 1) \<le> \<bar>x\<bar>" by (simp only: x)
    moreover have "exponent x = ?e - 1" using False by (simp add: exponent_def q)
    ultimately show ?thesis by simp
  qed
qed

lemma round_even_pos: "1 \<le> q \<Longrightarrow> 1 \<le> round_even q"
  by (auto simp add: round_even_def Let_def)

lemma round_even_neg: "q \<le> - 1 \<Longrightarrow> round_even q \<le> - 1"
proof -
  assume q: "q \<le> - 1"
  then have f: "\<lfloor>q\<rfloor> \<le> - 1" by linarith
  show ?thesis
  proof (cases "\<lfloor>q\<rfloor> = - 1")
    case True
    then have "q - of_int \<lfloor>q\<rfloor> = 0" using q by linarith
    then show ?thesis unfolding round_even_def Let_def using True by simp
  next
    case False
    then have "\<lfloor>q\<rfloor> \<le> - 2" using f by linarith
    moreover have "round_even q \<le> \<lfloor>q\<rfloor> + 1" by (simp add: round_even_def Let_def)
    ultimately show ?thesis by linarith
  qed
qed

lemma round_double_eq_0_iff: "round_double x = 0 \<longleftrightarrow> x = 0"
proof
  assume r: "round_double x = 0"
  show "x = 0"
  proof (rule ccontr)
    assume x: "x \<noteq> 0"
    let ?u = "pow2 (exponent x - 52)"
    have u: "0 < ?u" by (rule pow2_pos)
    have "pow2 (exponent x) = ?u * 2 ^ 52"
      by (simp add: pow2_power_int power_int_diff)
    moreover have "?u * 1 \<le> ?u * 2 ^ 52"
      using u by (intro mult_left_mono) simp_all
    ultimately have big: "?u \<le> \<bar>x\<bar>"
      using exponent_le [OF x] by simp
    have "1 \<le> x / ?u \<or> x / ?u \<le> - 1"
      using big u by (cases "0 \<le> x") (simp_all add: le_divide_eq divide_le_eq)
    then have "round_even (x / ?u) \<noteq> 0"
      using round_even_pos [of "x / ?u"] round_even_neg [of "x / ?u"] by auto
    then show False using r x u by (simp add: round_double_def Let_def)
  qed
next
  assume "x = 0"
  then show "round_double x = 0" by (simp add: round_double_def)
qed

subsection \<open>Evaluations and the shape of the formats\<close>

lemma level_100: "py_int (float_mul (float_div 100 255) 99) = 38"
  by code_simp

lemma level_255: "py_int (float_mul (float_div 255 255) 99) = 99"
  by code_simp

lemma temp_mid_sample: "TEMP_MID_HASS sample_util = 327"
  by code_simp

lemma format_02x_ff: "format_02x 255 = ''ff''"
  by code_simp

lemma format_02x_00: "format_02x 0 = ''00''"
  by code_simp

lemma parse_sample:
  "py_int16 (slice ''#1A2B3CFF00'' 1 3) = Inr 26"
  "py_int16 (slice ''#1A2B3CFF00'' 3 5) = Inr 43"
  "py_int16 (slice ''#1A2B3CFF00'' 5 7) = Inr 60"
  "py_int16 (slice ''#1A2B3CFF00'' 7 9) = Inr 255"
  "py_int16 (slice ''#1A2B3CFF00'' 9 11) = Inr 0"
  by code_simp+

text \<open>A byte is written by \<^verbatim>\<open>format(n, '02x')\<close> as exactly two digits.\<close>

lemma format_02x_byte:
  assumes "0 \<le> n" and "n \<le> 255"
  shows "format_02x n = [digit_char (nat n div 16), digit_char (nat n mod 16)]"
proof -
  have small: "nat n div 16 < 16" using assms by auto
  show ?thesis
  proof (cases "nat n < 16")
    case True
    then have "hex_digits_of (nat n) [] = [digit_char (nat n)]"
      by simp
    moreover have "digit_char 0 = CHR ''0''" by code_simp
    ultimately show ?thesis using True assms by (simp add: format_02x_def)
  next
    case False
    then have "hex_digits_of (nat n) [] = hex_digits_of (nat n div 16) [digit_char (nat n mod 16)]"
      by (subst hex_digits_of.simps) simp
    also have "\<dots> = [digit_char (nat n div 16), digit_char (nat n mod 16)]"
      using small by (subst hex_digits_of.simps) simp
    finally show ?thesis using assms by (simp add: format_02x_def)
  qed
qed

subsection \<open>Brightness of the dimmer\<close>

text \<open>
  C10. For a raw dimmer value of 0, \<^verbatim>\<open>brightness_state\<close> reports the device as off
  with a brightness of 255, not 0; for every raw value \<open>v > 0\<close> it reports on with the
  brightness \<open>(v / 99) * 255\<close>, computed by the division and the multiplication of
  Python's floats and not rounded to an integer; so the brightness it returns is
  never 0.
\<close>

theorem brightness_state_never_zero:
  "brightness_state 0 = (255, STATE_OFF) \<and>
   (0 < v \<longrightarrow> brightness_state v = (float_mul (float_div (of_int v) 99) 255, STATE_ON)) \<and>
   fst (brightness_state v) \<noteq> 0"
proof -
  have "float_mul (float_div (of_int v) 99) 255 \<noteq> 0" if "0 < v"
    using that by (simp add: float_mul_def float_div_def round_double_eq_0_iff)
  then show ?thesis by (simp add: brightness_state_def)
qed

theorem brightness_state_never_zero_witness:
  "(0::int) < 50 \<and>
   brightness_state 50 = (2265660323902061 / 17592186044416, STATE_ON) \<and>
   fst (brightness_state 50) \<noteq> 0"
proof -
  have "float_mul (float_div (of_int 50) 99) 255 = 2265660323902061 / 17592186044416"
    by code_simp
  then show ?thesis using brightness_state_never_zero [of 50] by simp
qed

subsection \<open>What \<^verbatim>\<open>turn_on\<close> returns and what it leaves alone\<close>

lemma dimmer_turn_on_returns:
  assumes "brightness self = Some b"
  shows "\<exists>self'. dimmer_turn_on node kw self = Inr self' \<and>
           calls self' = calls self @
             [Set_dimmer (value_id self)
                (py_int (float_mul
                   (float_div (case ATTR_BRIGHTNESS kw of Some x \<Rightarrow> x | None \<Rightarrow> b) 255) 99))]"
  using assms by (cases "ATTR_BRIGHTNESS kw") (simp_all add: dimmer_turn_on_def Let_def)

lemma dimmer_turn_on_fields:
  assumes "dimmer_turn_on node kw self = Inr self'"
  shows "brightness self' =
           (case ATTR_BRIGHTNESS kw of Some x \<Rightarrow> Some x | None \<Rightarrow> brightness self)"
    and "\<exists>level. calls self' = calls self @ [Set_dimmer (value_id self) level] \<and>
           state self' =
             (if set_dimmer node (value_id self) level then Some STATE_ON else state self)"
    and "refreshing self' = refreshing self"
    and "timers self' = timers self"
    and "value_id self' = value_id self"
    and "zwave_dimmer.more self' = zwave_dimmer.more self"
  using assms
  by (auto simp add: dimmer_turn_on_def Let_def split: option.splits if_splits)

text \<open>
  The colour light's \<^verbatim>\<open>turn_on\<close> ends in the dimmer's, on the object \<open>self1\<close> that
  the colour branches and the write of the payload have left.
\<close>

lemma color_turn_on_branch:
  assumes "color_turn_on cu node kw self = Inr self'"
  shows "\<exists>self1. dimmer_turn_on node kw self1 = Inr self' \<and>
           brightness self1 = brightness self \<and> state self1 = state self \<and>
           value_id self1 = value_id self \<and>
           refreshing self1 = refreshing self \<and> timers self1 = timers self \<and>
           color_channels self1 = color_channels self \<and>
           value_color_id self1 = value_color_id self \<and>
           rgb self1 =
             (case ATTR_COLOR_TEMP kw of
                Some t \<Rightarrow> rgb self
              | None \<Rightarrow> (case ATTR_RGB_COLOR kw of Some c \<Rightarrow> Some c | None \<Rightarrow> rgb self)) \<and>
           ct self1 =
             (case ATTR_COLOR_TEMP kw of
                None \<Rightarrow> ct self
              | Some t \<Rightarrow>
                  (case color_channels self of
                     None \<Rightarrow> ct self
                   | Some ch \<Rightarrow>
                       if (ch AND COLOR_CHANNEL_WARM_WHITE) \<noteq> 0 \<and>
                          (ch AND COLOR_CHANNEL_COLD_WHITE) \<noteq> 0
                       then Some (if t > TEMP_MID_HASS cu then TEMP_WARM_HASS cu
                                  else TEMP_COLD_HASS cu)
                       else ct self))"
  using assms unfolding color_turn_on_def
  by (auto simp add: Let_def split: option.splits if_splits sum.splits prod.splits)

lemma color_turn_on_fields:
  assumes "color_turn_on cu node kw self = Inr self'"
  shows "brightness self' =
           (case ATTR_BRIGHTNESS kw of Some x \<Rightarrow> Some x | None \<Rightarrow> brightness self)"
    and "\<exists>level. last (calls self') = Set_dimmer (value_id self) level \<and>
           state self' =
             (if set_dimmer node (value_id self) level then Some STATE_ON else state self)"
    and "rgb self' =
           (case ATTR_COLOR_TEMP kw of
              Some t \<Rightarrow> rgb self
            | None \<Rightarrow> (case ATTR_RGB_COLOR kw of Some c \<Rightarrow> Some c | None \<Rightarrow> rgb self))"
    and "ct self' =
           (case ATTR_COLOR_TEMP kw of
              None \<Rightarrow> ct self
            | Some t \<Rightarrow>
                (case color_channels self of
                   None \<Rightarrow> ct self
                 | Some ch \<Rightarrow>
                     if (ch AND COLOR_CHANNEL_WARM_WHITE) \<noteq> 0 \<and>
                        (ch AND COLOR_CHANNEL_COLD_WHITE) \<noteq> 0
                     then Some (if t > TEMP_MID_HASS cu then TEMP_WARM_HASS cu
                                else TEMP_COLD_HASS cu)
                     else ct self))"
    and "color_channels self' = color_channels self"
    and "refreshing self' = refreshing self"
    and "timers self' = timers self"
proof -
  obtain self1 where s1: "dimmer_turn_on node kw self1 = Inr self'"
    and e: "brightness self1 = brightness self" "state self1 = state self"
      "value_id self1 = value_id self" "refreshing self1 = refreshing self"
      "timers self1 = timers self" "color_channels self1 = color_channels self"
    and r: "rgb self1 =
             (case ATTR_COLOR_TEMP kw of
                Some t \<Rightarrow> rgb self
              | None \<Rightarrow> (case ATTR_RGB_COLOR kw of Some c \<Rightarrow> Some c | None \<Rightarrow> rgb self))"
    and c: "ct self1 =
             (case ATTR_COLOR_TEMP kw of
                None \<Rightarrow> ct self
              | Some t \<Rightarrow>
                  (case color_channels self of
                     None \<Rightarrow> ct self
                   | Some ch \<Rightarrow>
                       if (ch AND COLOR_CHANNEL_WARM_WHITE) \<noteq> 0 \<and>
                          (ch AND COLOR_CHANNEL_COLD_WHITE) \<noteq> 0
                       then Some (if t > TEMP_MID_HASS cu then TEMP_WARM_HASS cu
                                  else TEMP_COLD_HASS cu)
                       else ct self))"
    using color_turn_on_branch [OF assms] by blast
  have m: "zwave_dimmer.more self' = zwave_dimmer.more self1"
    using dimmer_turn_on_fields(6) [OF s1] .
  have sel: "rgb self' = rgb self1" "ct self' = ct self1" "color_channels self' = color_channels self1"
    using m by (cases self', cases self1, simp)+
  show "brightness self' =
           (case ATTR_BRIGHTNESS kw of Some x \<Rightarrow> Some x | None \<Rightarrow> brightness self)"
    using dimmer_turn_on_fields(1) [OF s1] e by (simp split: option.splits)
  show "\<exists>level. last (calls self') = Set_dimmer (value_id self) level \<and>
           state self' =
             (if set_dimmer node (value_id self) level then Some STATE_ON else state self)"
    using dimmer_turn_on_fields(2) [OF s1] e by auto
  show "rgb self' =
           (case ATTR_COLOR_TEMP kw of
              Some t \<Rightarrow> rgb self
            | None \<Rightarrow> (case ATTR_RGB_COLOR kw of Some c \<Rightarrow> Some c | None \<Rightarrow> rgb self))"
    using sel r by simp
  show "ct self' =
           (case ATTR_COLOR_TEMP kw of
              None \<Rightarrow> ct self
            | Some t \<Rightarrow>
                (case color_channels self of
                   None \<Rightarrow> ct self
                 | Some ch \<Rightarrow>
                     if (ch AND COLOR_CHANNEL_WARM_WHITE) \<noteq> 0 \<and>
                        (ch AND COLOR_CHANNEL_COLD_WHITE) \<noteq> 0
                     then Some (if t > TEMP_MID_HASS cu then TEMP_WARM_HASS cu
                                else TEMP_COLD_HASS cu)
                     else ct self))"
    using sel c by simp
  show "color_channels self' = color_channels self" using sel e by simp
  show "refreshing self' = refreshing self" using dimmer_turn_on_fields(3) [OF s1] e by simp
  show "timers self' = timers self" using dimmer_turn_on_fields(4) [OF s1] e by simp
qed

subsection \<open>The payload that \<^verbatim>\<open>turn_on\<close> writes\<close>

text \<open>
  C1, as the code has it. When a colour temperature is requested and the device has
  both white channels, \<^verbatim>\<open>turn_on\<close> writes one of two fixed payloads, never a blend:
  \<^verbatim>\<open>#000000FF00\<close> (warm channel saturated) when the target is above
  \<^verbatim>\<open>TEMP_MID_HASS\<close>, and \<^verbatim>\<open>#00000000FF\<close> (cold channel saturated) when it is at
  or below it; the dimmer write follows. A higher mired value is a warmer light, and
  the comparison is the reverse of the one the claim states.
\<close>

theorem turn_on_color_temp_two_whites:
  assumes "ATTR_COLOR_TEMP kw = Some temp"
    and "color_channels self = Some ch"
    and "(ch AND COLOR_CHANNEL_WARM_WHITE) \<noteq> 0"
    and "(ch AND COLOR_CHANNEL_COLD_WHITE) \<noteq> 0"
    and "brightness self = Some b"
  shows "\<exists>self' level. color_turn_on cu node kw self = Inr self' \<and>
           calls self' = calls self @
             [Set_rgbw (value_color_id self)
                (if temp > TEMP_MID_HASS cu then ''#000000FF00'' else ''#00000000FF''),
              Set_dimmer (value_id self) level]"
proof -
  let ?p = "if temp > TEMP_MID_HASS cu then ''#000000FF00'' else ''#00000000FF''"
  let ?s = "self\<lparr>ct := Some (if temp > TEMP_MID_HASS cu then TEMP_WARM_HASS cu
                                 else TEMP_COLD_HASS cu),
                   calls := calls self @ [Set_rgbw (value_color_id self) ?p]\<rparr>"
  have "color_turn_on cu node kw self = dimmer_turn_on node kw ?s"
    using assms by (simp add: color_turn_on_def)
  moreover have "brightness ?s = Some b" using assms by simp
  from dimmer_turn_on_returns [OF this, of node kw]
  obtain self' level where "dimmer_turn_on node kw ?s = Inr self'"
    and "calls self' = calls ?s @ [Set_dimmer (value_id ?s) level]" by blast
  ultimately show ?thesis by simp
qed

theorem turn_on_color_temp_two_whites_witness:
  "\<exists>self' level.
     color_turn_on sample_util node_accepting (no_kwargs\<lparr>ATTR_COLOR_TEMP := Some 400\<rparr>)
       (sample_light 31) = Inr self' \<and>
     calls self' = [Set_rgbw 2 ''#000000FF00'', Set_dimmer 1 level]"
  using turn_on_color_temp_two_whites [of "no_kwargs\<lparr>ATTR_COLOR_TEMP := Some 400\<rparr>" 400
      "sample_light 31" 31 255 sample_util node_accepting]
    temp_mid_sample
  by (simp add: sample_light_def
      COLOR_CHANNEL_WARM_WHITE_def COLOR_CHANNEL_COLD_WHITE_def)

text \<open>
  The claim as it is stated fails at a target of 200 mireds, which is below the
  midpoint 327 of a host with the bounds 154 and 500: the payload is the cold one,
  \<^verbatim>\<open>#00000000FF\<close>, where the claim has \<^verbatim>\<open>FF00\<close>.
\<close>

theorem turn_on_color_temp_two_whites_counterexample:
  "(200::rat) \<le> TEMP_MID_HASS sample_util \<and>
   map_sum id calls
     (color_turn_on sample_util node_accepting (no_kwargs\<lparr>ATTR_COLOR_TEMP := Some 200\<rparr>)
        (sample_light 31)) =
   Inr [Set_rgbw 2 ''#00000000FF'', Set_dimmer 1 99]"
  by code_simp

text \<open>
  C2. On a device with exactly one white channel the claim has \<^verbatim>\<open>#000000\<close> followed
  by one byte of two hexadecimal digits, and \<^verbatim>\<open>turn_on\<close> does not write that. At
  500 mireds, the upper bound of a host with the bounds 154 and 500, a device with a
  warm channel only has the level 255, for rounding and for \<^verbatim>\<open>int\<close> alike; the byte
  is \<^verbatim>\<open>ff\<close>, and the payload that is written ends in the three decimal digits
  \<^verbatim>\<open>255\<close>, since \<^verbatim>\<open>format(int(temp))\<close> has no format specification. Read back by
  \<^verbatim>\<open>update_properties\<close>, which takes two hexadecimal digits, that payload is the
  level 37 and a temperature near 204 mireds, where the payload with the byte
  \<^verbatim>\<open>ff\<close> is read back as 500 mireds.
\<close>

theorem turn_on_color_temp_one_white_decimal:
  "map_sum id calls
     (color_turn_on sample_util node_accepting (no_kwargs\<lparr>ATTR_COLOR_TEMP := Some 500\<rparr>)
        (sample_light 29)) =
   Inr [Set_rgbw 2 ''#000000255'', Set_dimmer 1 99] \<and>
   map_sum id ct
     (color_update_properties sample_util (sample_values ''#000000255'' 29) (sample_light 29)) =
   Inr (Some (7184786758469255 / 35184372088832)) \<and>
   map_sum id ct
     (color_update_properties sample_util (sample_values ''#000000ff'' 29) (sample_light 29)) =
   Inr (Some 500)"
  by code_simp

text \<open>The payload that is written is not the one with the byte \<^verbatim>\<open>ff\<close>.\<close>

theorem turn_on_color_temp_one_white_decimal_witness:
  "map_sum id calls
     (color_turn_on sample_util node_accepting (no_kwargs\<lparr>ATTR_COLOR_TEMP := Some 500\<rparr>)
        (sample_light 29)) \<noteq>
   Inr [Set_rgbw 2 ''#000000ff'', Set_dimmer 1 99]"
  using turn_on_color_temp_one_white_decimal by simp

text \<open>
  C3, as the code has it. When no colour temperature is requested and an RGB colour
  is, \<^verbatim>\<open>turn_on\<close> caches the colour and writes \<^verbatim>\<open>#\<close>, the colour values in
  \<^verbatim>\<open>format(c, '02x')\<close>, which is two lower-case hexadecimal digits for a byte, and
  then \<^verbatim>\<open>0000\<close>, two zero bytes whatever white channels the device has; the dimmer
  write follows. For (255, 0, 0) the payload is \<^verbatim>\<open>#ff00000000\<close>.
\<close>

theorem turn_on_rgb:
  assumes "ATTR_COLOR_TEMP kw = None"
    and "ATTR_RGB_COLOR kw = Some color"
    and "brightness self = Some b"
  shows "\<exists>self' level. color_turn_on cu node kw self = Inr self' \<and>
           rgb self' = Some color \<and>
           calls self' = calls self @
             [Set_rgbw (value_color_id self) (''#'' @ concat (map format_02x color) @ ''0000''),
              Set_dimmer (value_id self) level] \<and>
           (\<forall>c \<in> set color. 0 \<le> c \<and> c \<le> 255 \<longrightarrow>
              format_02x c = [digit_char (nat c div 16), digit_char (nat c mod 16)])"
proof -
  let ?p = "''#'' @ concat (map format_02x color) @ ''0000''"
  let ?s = "self\<lparr>rgb := Some color, calls := calls self @ [Set_rgbw (value_color_id self) ?p]\<rparr>"
  have run: "color_turn_on cu node kw self = dimmer_turn_on node kw ?s"
    using assms by (simp add: color_turn_on_def)
  have "brightness ?s = Some b" using assms by simp
  from dimmer_turn_on_returns [OF this, of node kw]
  obtain self' level where ret: "dimmer_turn_on node kw ?s = Inr self'"
    and log: "calls self' = calls ?s @ [Set_dimmer (value_id ?s) level]" by blast
  have "zwave_dimmer.more self' = zwave_dimmer.more ?s"
    using dimmer_turn_on_fields(6) [OF ret] .
  then have "rgb self' = rgb ?s"
    by (cases self', cases self) simp
  then show ?thesis using run ret log by (simp add: format_02x_byte)
qed

theorem turn_on_rgb_witness:
  "\<exists>self' level.
     color_turn_on sample_util node_accepting (no_kwargs\<lparr>ATTR_RGB_COLOR := Some [255, 0, 0]\<rparr>)
       (sample_light 31) = Inr self' \<and>
     rgb self' = Some [255, 0, 0] \<and>
     calls self' = [Set_rgbw 2 ''#ff00000000'', Set_dimmer 1 level]"
  using turn_on_rgb [of "no_kwargs\<lparr>ATTR_RGB_COLOR := Some [255, 0, 0]\<rparr>" "[255, 0, 0]"
      "sample_light 31" 255 sample_util node_accepting] format_02x_ff format_02x_00
  by (auto simp add: sample_light_def no_kwargs_def)

text \<open>
  The claim as it is stated fails on a device with the three colour channels and no
  white channel (28 = RED + GREEN + BLUE): it has no white capability bit, and the
  payload still ends in two zero bytes.
\<close>

theorem turn_on_rgb_counterexample:
  "(28 AND COLOR_CHANNEL_WARM_WHITE) = 0 \<and> (28 AND COLOR_CHANNEL_COLD_WHITE) = 0 \<and>
   map_sum id calls
     (color_turn_on sample_util node_accepting (no_kwargs\<lparr>ATTR_RGB_COLOR := Some [255, 0, 0]\<rparr>)
        (sample_light 28)) =
   Inr [Set_rgbw 2 ''#ff00000000'', Set_dimmer 1 99]"
  by code_simp

text \<open>
  C5, as the code has it. When neither a colour temperature nor an RGB colour is
  requested, \<^verbatim>\<open>turn_on\<close> writes no colour payload and logs a warning; it raises
  nothing, and the dimmer write is still sent, by the \<^verbatim>\<open>turn_on\<close> of the dimmer.
\<close>

theorem turn_on_without_color:
  assumes "ATTR_COLOR_TEMP kw = None"
    and "ATTR_RGB_COLOR kw = None"
    and "brightness self = Some b"
  shows "\<exists>self'. color_turn_on cu node kw self = Inr self' \<and>
           calls self' = calls self @
             [Log_warning,
              Set_dimmer (value_id self)
                (py_int (float_mul
                   (float_div (case ATTR_BRIGHTNESS kw of Some x \<Rightarrow> x | None \<Rightarrow> b) 255) 99))]"
proof -
  let ?s = "self\<lparr>calls := calls self @ [Log_warning]\<rparr>"
  have "brightness ?s = Some b" using assms by simp
  from dimmer_turn_on_returns [OF this, of node kw]
  show ?thesis using assms by (simp add: color_turn_on_def)
qed

theorem turn_on_without_color_witness:
  "\<exists>self'. color_turn_on sample_util node_accepting no_kwargs (sample_light 31) = Inr self' \<and>
     calls self' = [Log_warning, Set_dimmer 1 99]"
  using turn_on_without_color [of no_kwargs "sample_light 31" 255 sample_util node_accepting]
    level_255
  by (simp add: sample_light_def no_kwargs_def)

text \<open>
  The claim as it is stated fails on the call without arguments: the result is an
  object, not an error, and the node has received a dimmer write.
\<close>

theorem turn_on_without_color_counterexample:
  "map_sum id calls (color_turn_on sample_util node_accepting no_kwargs (sample_light 31)) =
   Inr [Log_warning, Set_dimmer 1 99]"
  by code_simp

subsection \<open>The cached state after a write\<close>

text \<open>
  C4, as the code has it. In both \<^verbatim>\<open>turn_on\<close> methods the on/off state is the only
  cached value that waits for the node: it becomes on when \<^verbatim>\<open>set_dimmer\<close> answers
  true and is left alone when it answers false. The cached brightness is overwritten
  with \<^verbatim>\<open>ATTR_BRIGHTNESS\<close> before the write, and the colour light overwrites its
  cached colour with \<^verbatim>\<open>ATTR_RGB_COLOR\<close> when no colour temperature is given, and
  its cached colour temperature with the warm or the cold constant when one is given
  and the device has both white channels, before it calls \<^verbatim>\<open>set_rgbw\<close>, whose answer
  it does not read: these three are updated whatever the node answers.
\<close>

theorem turn_on_cached_state:
  "(dimmer_turn_on node kw d = Inr d' \<longrightarrow>
      brightness d' = (case ATTR_BRIGHTNESS kw of Some x \<Rightarrow> Some x | None \<Rightarrow> brightness d) \<and>
      (\<exists>level. last (calls d') = Set_dimmer (value_id d) level \<and>
         state d' = (if set_dimmer node (value_id d) level then Some STATE_ON else state d))) \<and>
   (color_turn_on cu node kw c = Inr c' \<longrightarrow>
      brightness c' = (case ATTR_BRIGHTNESS kw of Some x \<Rightarrow> Some x | None \<Rightarrow> brightness c) \<and>
      (\<exists>level. last (calls c') = Set_dimmer (value_id c) level \<and>
         state c' = (if set_dimmer node (value_id c) level then Some STATE_ON else state c)) \<and>
      rgb c' =
        (case ATTR_COLOR_TEMP kw of
           Some t \<Rightarrow> rgb c
         | None \<Rightarrow> (case ATTR_RGB_COLOR kw of Some col \<Rightarrow> Some col | None \<Rightarrow> rgb c)) \<and>
      ct c' =
        (case ATTR_COLOR_TEMP kw of
           None \<Rightarrow> ct c
         | Some t \<Rightarrow>
             (case color_channels c of
                None \<Rightarrow> ct c
              | Some ch \<Rightarrow>
                  if (ch AND COLOR_CHANNEL_WARM_WHITE) \<noteq> 0 \<and>
                     (ch AND COLOR_CHANNEL_COLD_WHITE) \<noteq> 0
                  then Some (if t > TEMP_MID_HASS cu then TEMP_WARM_HASS cu
                             else TEMP_COLD_HASS cu)
                  else ct c)))"
proof (intro conjI impI)
  assume a: "dimmer_turn_on node kw d = Inr d'"
  show "brightness d' = (case ATTR_BRIGHTNESS kw of Some x \<Rightarrow> Some x | None \<Rightarrow> brightness d)"
    using dimmer_turn_on_fields(1) [OF a] .
  show "\<exists>level. last (calls d') = Set_dimmer (value_id d) level \<and>
         state d' = (if set_dimmer node (value_id d) level then Some STATE_ON else state d)"
    using dimmer_turn_on_fields(2) [OF a] by auto
next
  assume a: "color_turn_on cu node kw c = Inr c'"
  show "brightness c' = (case ATTR_BRIGHTNESS kw of Some x \<Rightarrow> Some x | None \<Rightarrow> brightness c)"
    using color_turn_on_fields(1) [OF a] .
  show "\<exists>level. last (calls c') = Set_dimmer (value_id c) level \<and>
         state c' = (if set_dimmer node (value_id c) level then Some STATE_ON else state c)"
    using color_turn_on_fields(2) [OF a] .
  show "rgb c' =
        (case ATTR_COLOR_TEMP kw of
           Some t \<Rightarrow> rgb c
         | None \<Rightarrow> (case ATTR_RGB_COLOR kw of Some col \<Rightarrow> Some col | None \<Rightarrow> rgb c))"
    using color_turn_on_fields(3) [OF a] .
  show "ct c' =
        (case ATTR_COLOR_TEMP kw of
           None \<Rightarrow> ct c
         | Some t \<Rightarrow>
             (case color_channels c of
                None \<Rightarrow> ct c
              | Some ch \<Rightarrow>
                  if (ch AND COLOR_CHANNEL_WARM_WHITE) \<noteq> 0 \<and>
                     (ch AND COLOR_CHANNEL_COLD_WHITE) \<noteq> 0
                  then Some (if t > TEMP_MID_HASS cu then TEMP_WARM_HASS cu
                             else TEMP_COLD_HASS cu)
                  else ct c))"
    using color_turn_on_fields(4) [OF a] .
qed

theorem turn_on_cached_state_witness:
  "dimmer_turn_on node_refusing (no_kwargs\<lparr>ATTR_BRIGHTNESS := Some 100\<rparr>) sample_dimmer =
     Inr (sample_dimmer\<lparr>brightness := Some 100, calls := [Set_dimmer 1 38]\<rparr>) \<and>
   color_turn_on sample_util node_refusing
       (no_kwargs\<lparr>ATTR_BRIGHTNESS := Some 100, ATTR_COLOR_TEMP := Some 400\<rparr>) (sample_light 31) =
     Inr ((sample_light 31)\<lparr>brightness := Some 100,
            calls := [Set_rgbw 2 ''#000000FF00'', Set_dimmer 1 38],
            ct := Some (TEMP_WARM_HASS sample_util)\<rparr>) \<and>
   state (sample_dimmer\<lparr>brightness := Some 100, calls := [Set_dimmer 1 38]\<rparr>) = Some STATE_OFF \<and>
   brightness (sample_dimmer\<lparr>brightness := Some 100, calls := [Set_dimmer 1 38]\<rparr>) = Some 100"
proof -
  let ?kd = "no_kwargs\<lparr>ATTR_BRIGHTNESS := Some 100\<rparr>"
  let ?kc = "no_kwargs\<lparr>ATTR_BRIGHTNESS := Some 100, ATTR_COLOR_TEMP := Some 400\<rparr>"
  let ?d' = "sample_dimmer\<lparr>brightness := Some 100, calls := [Set_dimmer 1 38]\<rparr>"
  let ?c' = "(sample_light 31)\<lparr>brightness := Some 100,
            calls := [Set_rgbw 2 ''#000000FF00'', Set_dimmer 1 38],
            ct := Some (TEMP_WARM_HASS sample_util)\<rparr>"
  have d: "dimmer_turn_on node_refusing ?kd sample_dimmer = Inr ?d'"
    using level_100
    by (simp add: dimmer_turn_on_def sample_dimmer_def no_kwargs_def node_refusing_def)
  have c: "color_turn_on sample_util node_refusing ?kc (sample_light 31) = Inr ?c'"
    using level_100
    by (simp add: color_turn_on_def dimmer_turn_on_def sample_light_def no_kwargs_def
        node_refusing_def temp_mid_sample
        COLOR_CHANNEL_WARM_WHITE_def COLOR_CHANNEL_COLD_WHITE_def)
  show ?thesis
    using d c turn_on_cached_state [of node_refusing ?kd sample_dimmer ?d']
      turn_on_cached_state [of _ ?kc _ _ sample_util "sample_light 31" ?c']
    by (simp add: sample_dimmer_def)
qed

text \<open>
  The claim as it is stated fails on a dimmer at brightness 255 that is asked for
  brightness 100 while the node refuses the write: the cached brightness is 100.
\<close>

theorem turn_on_cached_state_counterexample:
  "set_dimmer node_refusing 1 38 = False \<and>
   brightness sample_dimmer = Some 255 \<and>
   map_sum id brightness
     (dimmer_turn_on node_refusing (no_kwargs\<lparr>ATTR_BRIGHTNESS := Some 100\<rparr>) sample_dimmer) =
   Inr (Some 100) \<and>
   map_sum id calls
     (dimmer_turn_on node_refusing (no_kwargs\<lparr>ATTR_BRIGHTNESS := Some 100\<rparr>) sample_dimmer) =
   Inr [Set_dimmer 1 38]"
  by code_simp

subsection \<open>What \<^verbatim>\<open>update_properties\<close> reads from the payload\<close>

text \<open>
  C6, as the code has it. On a device with both white channels and a payload whose
  five bytes can be read, \<^verbatim>\<open>update_properties\<close> returns, and the colour temperature
  follows the precedence of the claim: the warm constant when the warm byte is
  positive, else the cold constant when the cold byte is positive, else the
  midpoint. The colour is the one \<^verbatim>\<open>ct_to_rgb\<close> gives for that temperature (the
  conversions of the host, each component cut by \<^verbatim>\<open>int\<close>) in the first two cases
  and the three bytes of the payload in the last, when the device has at least one
  of the red, green and blue channels; when it has none of them the colour is
  \<open>None\<close>.
\<close>

theorem decode_two_whites:
  assumes "(value_color_channels_data vals AND COLOR_CHANNEL_WARM_WHITE) \<noteq> 0"
    and "(value_color_channels_data vals AND COLOR_CHANNEL_COLD_WHITE) \<noteq> 0"
    and "py_int16 (slice (value_color_data vals) 1 3) = Inr r"
    and "py_int16 (slice (value_color_data vals) 3 5) = Inr g"
    and "py_int16 (slice (value_color_data vals) 5 7) = Inr b"
    and "py_int16 (slice (value_color_data vals) 7 9) = Inr warm_white"
    and "py_int16 (slice (value_color_data vals) 9 11) = Inr cold_white"
  shows "\<exists>self'. color_update_properties cu vals self = Inr self' \<and>
           ct self' =
             Some (if warm_white > 0 then TEMP_WARM_HASS cu
                   else if cold_white > 0 then TEMP_COLD_HASS cu
                   else TEMP_MID_HASS cu) \<and>
           rgb self' =
             (if (value_color_channels_data vals AND COLOR_CHANNEL_RED) = 0 \<and>
                 (value_color_channels_data vals AND COLOR_CHANNEL_GREEN) = 0 \<and>
                 (value_color_channels_data vals AND COLOR_CHANNEL_BLUE) = 0
              then None
              else Some (if warm_white > 0 then ct_to_rgb cu (TEMP_WARM_HASS cu)
                         else if cold_white > 0 then ct_to_rgb cu (TEMP_COLD_HASS cu)
                         else [r, g, b]))"
  using assms by (simp add: color_update_properties_def Let_def)

theorem decode_two_whites_witness:
  "\<exists>self'. color_update_properties sample_util (sample_values ''#1A2B3CFF00'' 31)
              (sample_light 31) = Inr self' \<and>
     ct self' = Some (TEMP_WARM_HASS sample_util) \<and>
     rgb self' = Some (ct_to_rgb sample_util (TEMP_WARM_HASS sample_util))"
  using decode_two_whites [of "sample_values ''#1A2B3CFF00'' 31" 26 43 60 255 0
      sample_util "sample_light 31"] parse_sample
  by (simp add: sample_values_def COLOR_CHANNEL_WARM_WHITE_def COLOR_CHANNEL_COLD_WHITE_def
      COLOR_CHANNEL_RED_def COLOR_CHANNEL_GREEN_def COLOR_CHANNEL_BLUE_def)

text \<open>
  The claim as it is stated fails on a device whose channels are the two white ones
  and nothing else (3 is \<^verbatim>\<open>WARM_WHITE\<close> with \<^verbatim>\<open>COLD_WHITE\<close>): with the extra bytes \<^verbatim>\<open>FF00\<close>
  the temperature is the warm constant and the colour is \<open>None\<close>, not the colour
  of that temperature.
\<close>

theorem decode_two_whites_counterexample:
  "(3 AND COLOR_CHANNEL_WARM_WHITE) \<noteq> 0 \<and> (3 AND COLOR_CHANNEL_COLD_WHITE) \<noteq> 0 \<and>
   map_sum id ct
     (color_update_properties sample_util (sample_values ''#1A2B3CFF00'' 3) (sample_light 3)) =
   Inr (Some (TEMP_WARM_HASS sample_util)) \<and>
   map_sum id rgb
     (color_update_properties sample_util (sample_values ''#1A2B3CFF00'' 3) (sample_light 3)) =
   Inr None"
  by code_simp

subsection \<open>Channels that the device lacks\<close>

text \<open>
  Whether it returns or raises, \<^verbatim>\<open>update_properties\<close> leaves the timers, the flag
  and the log alone, stores the channels it read, and does not assign the colour
  temperature of a device without a white channel. When it returns on a device
  without a red, green or blue channel, the colour is \<open>None\<close>.
\<close>

lemma color_update_frame:
  "refreshing (after (color_update_properties cu vals self)) = refreshing self"
  "timers (after (color_update_properties cu vals self)) = timers self"
  "calls (after (color_update_properties cu vals self)) = calls self"
  "value_id (after (color_update_properties cu vals self)) = value_id self"
  "color_channels (after (color_update_properties cu vals self)) =
     Some (value_color_channels_data vals)"
  "(brightness (after (color_update_properties cu vals self)),
    state (after (color_update_properties cu vals self))) =
     (Some (fst (brightness_state (value_data vals))),
      Some (snd (brightness_state (value_data vals))))"
  unfolding color_update_properties_def dimmer_update_properties_def after_def
  by (auto simp add: Let_def split: sum.splits if_splits prod.splits)

lemma color_update_no_white:
  assumes "(value_color_channels_data vals AND COLOR_CHANNEL_WARM_WHITE) = 0"
    and "(value_color_channels_data vals AND COLOR_CHANNEL_COLD_WHITE) = 0"
  shows "ct (after (color_update_properties cu vals self)) = ct self"
  using assms unfolding color_update_properties_def dimmer_update_properties_def after_def
  by (auto simp add: Let_def split: sum.splits if_splits prod.splits)

lemma color_update_no_rgb:
  assumes "color_update_properties cu vals self = Inr self'"
    and "(value_color_channels_data vals AND COLOR_CHANNEL_RED) = 0"
    and "(value_color_channels_data vals AND COLOR_CHANNEL_GREEN) = 0"
    and "(value_color_channels_data vals AND COLOR_CHANNEL_BLUE) = 0"
  shows "rgb self' = None"
  using assms unfolding color_update_properties_def dimmer_update_properties_def
  by (auto simp add: Let_def split: sum.splits if_splits prod.splits)

text \<open>
  Whether it returns or raises, \<^verbatim>\<open>turn_on\<close> leaves the timers, the flag and the
  channels alone, and the colour temperature of a device without a white channel.
\<close>

lemma dimmer_turn_on_frame:
  "refreshing (after (dimmer_turn_on node kw self)) = refreshing self"
  "timers (after (dimmer_turn_on node kw self)) = timers self"
  "zwave_dimmer.more (after (dimmer_turn_on node kw self)) = zwave_dimmer.more self"
  unfolding dimmer_turn_on_def after_def
  by (auto simp add: Let_def split: option.splits)

lemma color_turn_on_frame:
  "refreshing (after (color_turn_on cu node kw self)) = refreshing self"
  "timers (after (color_turn_on cu node kw self)) = timers self"
  "color_channels (after (color_turn_on cu node kw self)) = color_channels self"
  "color_channels self = Some ch \<Longrightarrow>
   (ch AND COLOR_CHANNEL_WARM_WHITE) = 0 \<Longrightarrow> (ch AND COLOR_CHANNEL_COLD_WHITE) = 0 \<Longrightarrow>
   ct (after (color_turn_on cu node kw self)) = ct self"
  unfolding color_turn_on_def dimmer_turn_on_def after_def
  by (auto simp add: Let_def split: option.splits)

text \<open>
  The callbacks of the timers and the time that passes leave the fields of the colour
  light alone.
\<close>

lemma more_fields:
  fixes a b :: zwave_color_light
  assumes "zwave_dimmer.more a = zwave_dimmer.more b"
  shows "ct a = ct b" and "color_channels a = color_channels b" and "rgb a = rgb b"
  using assms by (cases a, cases b, simp)+

lemma fold_refresh_more:
  "zwave_dimmer.more (fold refresh_value ds s) = zwave_dimmer.more s"
  by (induction ds arbitrary: s) (simp_all add: refresh_value_def)

lemma elapse_more: "zwave_dimmer.more (elapse now self) = zwave_dimmer.more self"
  by (simp add: elapse_def fold_refresh_more split: prod.splits)

text \<open>
  A notification that arrives while a refresh is in flight hands the object, with the
  flag cleared, to \<^verbatim>\<open>update_properties\<close>, and calls the host when that returns.
\<close>

lemma value_changed_refreshing:
  assumes "refreshing self" and "value_id self = vid"
  shows "value_changed upd vid now self =
           (case upd (self\<lparr>refreshing := False\<rparr>) of
              Inl (e, s) \<Rightarrow> Inl (e, s)
            | Inr s \<Rightarrow> Inr (s\<lparr>calls := calls s @ [Update_ha_state]\<rparr>))"
  using assms by (simp add: value_changed_def)

text \<open>
  A colour light whose channels stay \<open>ch\<close>, without a white one, keeps the colour
  temperature \<open>None\<close> that \<^verbatim>\<open>__init__\<close> gave it, through every event, whether
  a method returns or raises.
\<close>

lemma color_value_changed_inv:
  assumes "value_color_channels_data vals = ch"
    and "(ch AND COLOR_CHANNEL_WARM_WHITE) = 0" and "(ch AND COLOR_CHANNEL_COLD_WHITE) = 0"
    and "color_channels self = Some ch" and "ct self = None"
  shows "color_channels (after (value_changed (color_update_properties cu vals) vid now self)) = Some ch \<and>
         ct (after (value_changed (color_update_properties cu vals) vid now self)) = None"
proof (cases "value_id self = vid \<and> refreshing self")
  case True
  let ?r = "color_update_properties cu vals (self\<lparr>refreshing := False\<rparr>)"
  have w: "(value_color_channels_data vals AND COLOR_CHANNEL_WARM_WHITE) = 0"
    "(value_color_channels_data vals AND COLOR_CHANNEL_COLD_WHITE) = 0"
    using assms(2,3) unfolding assms(1) [symmetric] by simp_all
  have "ct (after ?r) = ct (self\<lparr>refreshing := False\<rparr>)"
    using w by (rule color_update_no_white)
  moreover have "color_channels (after ?r) = Some (value_color_channels_data vals)"
    by (rule color_update_frame)
  moreover have "value_changed (color_update_properties cu vals) vid now self =
      (case ?r of Inl (e, s) \<Rightarrow> Inl (e, s)
       | Inr s \<Rightarrow> Inr (s\<lparr>calls := calls s @ [Update_ha_state]\<rparr>))"
    using True by (simp add: value_changed_refreshing)
  ultimately show ?thesis
    using assms(1,5) by (auto simp add: after_def split: sum.splits prod.splits)
next
  case False
  then show ?thesis using assms(4,5)
    by (auto simp add: value_changed_def after_def Let_def split: list.splits)
qed

lemma color_step_inv:
  assumes "channels_fixed ch [e]"
    and "(ch AND COLOR_CHANNEL_WARM_WHITE) = 0" and "(ch AND COLOR_CHANNEL_COLD_WHITE) = 0"
    and "color_channels self = Some ch" and "ct self = None"
  shows "color_channels (step_event (color_update_properties cu) (color_turn_on cu) e self) = Some ch \<and>
         ct (step_event (color_update_properties cu) (color_turn_on cu) e self) = None"
proof (cases e)
  case (Value_changed vid now vals)
  have ch: "value_color_channels_data vals = ch" using assms(1) Value_changed by simp
  have el: "color_channels (elapse now self) = Some ch" "ct (elapse now self) = None"
    using assms(4,5) more_fields [OF elapse_more, of now self] by simp_all
  show ?thesis
    using color_value_changed_inv [OF ch assms(2,3) el, of cu vid now] Value_changed
    by (simp add: step_event_def notify_def)
next
  case (Turn_on node kw)
  then show ?thesis
    using assms(4,5) color_turn_on_frame(3) [of cu node kw self]
      color_turn_on_frame(4) [OF assms(4) assms(2,3), of cu node kw]
    by (simp add: step_event_def)
next
  case (Turn_off node)
  then show ?thesis using assms(4,5)
    by (simp add: step_event_def dimmer_turn_off_def Let_def)
next
  case (Elapse now)
  then show ?thesis
    using assms(4,5) more_fields [OF elapse_more, of now self] by (simp add: step_event_def)
qed

lemma channels_fixed_Cons:
  "channels_fixed ch (e # es) = (channels_fixed ch [e] \<and> channels_fixed ch es)"
  by (cases e) simp_all

lemma color_run_inv:
  assumes "channels_fixed ch es"
    and "(ch AND COLOR_CHANNEL_WARM_WHITE) = 0" and "(ch AND COLOR_CHANNEL_COLD_WHITE) = 0"
    and "color_channels self = Some ch" and "ct self = None"
  shows "color_channels (color_run cu es self) = Some ch \<and> ct (color_run cu es self) = None"
  using assms(1,4,5)
proof (induction es arbitrary: self)
  case Nil
  then show ?case by (simp add: color_run_def)
next
  case (Cons e es)
  let ?s = "step_event (color_update_properties cu) (color_turn_on cu) e self"
  have f: "channels_fixed ch [e]" "channels_fixed ch es"
    using Cons.prems(1) channels_fixed_Cons [of ch e es] by simp_all
  have "color_channels ?s = Some ch \<and> ct ?s = None"
    using f(1) assms(2,3) Cons.prems(2,3) by (rule color_step_inv)
  then have "color_channels (color_run cu es ?s) = Some ch \<and> ct (color_run cu es ?s) = None"
    using Cons.IH [OF f(2)] by simp
  then show ?case by (simp add: color_run_def)
qed

lemma new_color_light_fresh:
  assumes "new_color_light cu vid vcolor has_channels vals = Inr self"
    and "(value_color_channels_data vals AND COLOR_CHANNEL_WARM_WHITE) = 0"
    and "(value_color_channels_data vals AND COLOR_CHANNEL_COLD_WHITE) = 0"
  shows "color_channels self = Some (value_color_channels_data vals) \<and> ct self = None"
proof -
  obtain cid s1 where
    s1: "color_update_properties cu vals
           \<lparr>value_id = vid, brightness = None, state = None, refreshing = False,
            timers = [], calls = [], value_color_id = cid, color_channels = None,
            rgb = None, ct = None\<rparr> = Inr s1"
    and eq: "self = s1\<lparr>refreshing := False, timers := []\<rparr>"
    using assms(1)
    by (auto simp add: new_color_light_def ZwaveDimmer_init_def
        split: option.splits if_splits sum.splits prod.splits)
  let ?blank = "\<lparr>value_id = vid, brightness = None, state = None, refreshing = False,
            timers = [], calls = [], value_color_id = cid, color_channels = None,
            rgb = None, ct = None\<rparr>"
  have "color_channels (after (color_update_properties cu vals ?blank)) =
          Some (value_color_channels_data vals)"
    by (rule color_update_frame)
  moreover have "ct (after (color_update_properties cu vals ?blank)) = ct ?blank"
    using assms(2,3) by (rule color_update_no_white)
  ultimately show ?thesis using s1 eq by (simp add: after_def)
qed

text \<open>
  C7. A colour light without a white channel has the colour temperature \<open>None\<close>
  after its construction, where \<^verbatim>\<open>__init__\<close> sets it and the first
  \<^verbatim>\<open>update_properties\<close> leaves it, and after every run of events in which the
  device keeps reporting the same channels. Whatever the payload and the object,
  \<^verbatim>\<open>update_properties\<close> that returns on a device without a red, green or blue
  channel ends with the colour \<open>None\<close>.
\<close>

theorem decode_none_for_missing_channels:
  "(new_color_light cu vid vcolor has_channels vals0 = Inr self0 \<and>
    channels_fixed (value_color_channels_data vals0) es \<and>
    (value_color_channels_data vals0 AND COLOR_CHANNEL_WARM_WHITE) = 0 \<and>
    (value_color_channels_data vals0 AND COLOR_CHANNEL_COLD_WHITE) = 0
    \<longrightarrow> ct self0 = None \<and> ct (color_run cu es self0) = None) \<and>
   (color_update_properties cu vals s = Inr s' \<and>
    (value_color_channels_data vals AND COLOR_CHANNEL_RED) = 0 \<and>
    (value_color_channels_data vals AND COLOR_CHANNEL_GREEN) = 0 \<and>
    (value_color_channels_data vals AND COLOR_CHANNEL_BLUE) = 0
    \<longrightarrow> rgb s' = None)"
proof (intro conjI impI)
  assume a: "new_color_light cu vid vcolor has_channels vals0 = Inr self0 \<and>
    channels_fixed (value_color_channels_data vals0) es \<and>
    (value_color_channels_data vals0 AND COLOR_CHANNEL_WARM_WHITE) = 0 \<and>
    (value_color_channels_data vals0 AND COLOR_CHANNEL_COLD_WHITE) = 0"
  then have f: "color_channels self0 = Some (value_color_channels_data vals0) \<and> ct self0 = None"
    using new_color_light_fresh [of cu vid vcolor has_channels vals0 self0] by simp
  then show "ct self0 = None" by simp
  show "ct (color_run cu es self0) = None"
    using a f color_run_inv [of "value_color_channels_data vals0" es self0 cu] by simp
next
  assume "color_update_properties cu vals s = Inr s' \<and>
    (value_color_channels_data vals AND COLOR_CHANNEL_RED) = 0 \<and>
    (value_color_channels_data vals AND COLOR_CHANNEL_GREEN) = 0 \<and>
    (value_color_channels_data vals AND COLOR_CHANNEL_BLUE) = 0"
  then show "rgb s' = None" using color_update_no_rgb [of cu vals s s'] by simp
qed

theorem decode_none_for_missing_channels_witness:
  "new_color_light sample_util 1 (Some 2) True (sample_values ''#1A2B3C'' 28) =
     Inr ((sample_light 28)\<lparr>rgb := Some [26, 43, 60]\<rparr>) \<and>
   ct ((sample_light 28)\<lparr>rgb := Some [26, 43, 60]\<rparr>) = None \<and>
   ct (color_run sample_util
         [Turn_on node_accepting (no_kwargs\<lparr>ATTR_COLOR_TEMP := Some 400\<rparr>),
          Value_changed 1 0 (sample_values ''#1A2B3C'' 28), Elapse 2,
          Value_changed 1 3 (sample_values ''#1A2B'' 28)]
         ((sample_light 28)\<lparr>rgb := Some [26, 43, 60]\<rparr>)) = None \<and>
   color_update_properties sample_util (sample_values ''#1A2B3CFF00'' 3) (sample_light 3) =
     Inr ((sample_light 3)\<lparr>rgb := None, ct := Some (TEMP_WARM_HASS sample_util)\<rparr>) \<and>
   rgb ((sample_light 3)\<lparr>rgb := None, ct := Some (TEMP_WARM_HASS sample_util)\<rparr>) = None"
proof -
  let ?init = "sample_values ''#1A2B3C'' 28"
  let ?fresh = "(sample_light 28)\<lparr>rgb := Some [26, 43, 60]\<rparr>"
  let ?evs = "[Turn_on node_accepting (no_kwargs\<lparr>ATTR_COLOR_TEMP := Some 400\<rparr>),
          Value_changed 1 0 (sample_values ''#1A2B3C'' 28), Elapse 2,
          Value_changed 1 3 (sample_values ''#1A2B'' 28)]"
  let ?v = "sample_values ''#1A2B3CFF00'' 3"
  let ?dec = "(sample_light 3)\<lparr>rgb := None, ct := Some (TEMP_WARM_HASS sample_util)\<rparr>"
  have n: "new_color_light sample_util 1 (Some 2) True ?init = Inr ?fresh"
    by code_simp
  have u: "color_update_properties sample_util ?v (sample_light 3) = Inr ?dec"
    by code_simp
  have b: "channels_fixed (value_color_channels_data ?init) ?evs"
    "(value_color_channels_data ?init AND COLOR_CHANNEL_WARM_WHITE) = 0"
    "(value_color_channels_data ?init AND COLOR_CHANNEL_COLD_WHITE) = 0"
    "(value_color_channels_data ?v AND COLOR_CHANNEL_RED) = 0"
    "(value_color_channels_data ?v AND COLOR_CHANNEL_GREEN) = 0"
    "(value_color_channels_data ?v AND COLOR_CHANNEL_BLUE) = 0"
    by (simp_all add: sample_values_def COLOR_CHANNEL_WARM_WHITE_def
        COLOR_CHANNEL_COLD_WHITE_def COLOR_CHANNEL_RED_def COLOR_CHANNEL_GREEN_def
        COLOR_CHANNEL_BLUE_def)
  show ?thesis
    using n u b
      decode_none_for_missing_channels [of sample_util 1 "Some 2" True ?init ?fresh ?evs ?v
        "sample_light 3" ?dec]
    by simp
qed

subsection \<open>The deferred refresh\<close>

text \<open>
  Time that passes fires no timer when none that waits is due, and only the newest
  timer when the older ones do not wait.
\<close>

lemma fire_due_none:
  "\<not> list_ex (\<lambda>t. is_alive t \<and> due t \<le> now) ts \<Longrightarrow> fire_due now ts = (ts, [])"
  by (induction ts) (auto simp add: is_alive_def)

lemma elapse_newest:
  assumes "\<not> list_ex is_alive (tl (timers self))"
  shows "elapse now self =
           (case timers self of
              [] \<Rightarrow> self
            | t # older \<Rightarrow>
                if is_alive t \<and> due t \<le> now
                then refresh_value (due t) (self\<lparr>timers := t\<lparr>status := Fired\<rparr> # older\<rparr>)
                else self)"
proof (cases "timers self")
  case Nil
  then show ?thesis by (simp add: elapse_def)
next
  case (Cons t older)
  then have "\<not> list_ex (\<lambda>t. is_alive t \<and> due t \<le> now) older"
    using assms by (auto simp add: list_ex_iff)
  then have "fire_due now older = (older, [])" by (rule fire_due_none)
  then show ?thesis using Cons by (auto simp add: elapse_def is_alive_def)
qed

lemma elapse_idle:
  assumes "\<not> list_ex (\<lambda>t. is_alive t \<and> due t \<le> now) (timers self)"
  shows "elapse now self = self"
  using fire_due_none [OF assms] by (simp add: elapse_def)

text \<open>
  Every state that a run of events reaches from a new entity, a dimmer or a colour
  light, has at most one timer that waits, the newest, and none while a refresh is in
  flight. The cancellation in \<^verbatim>\<open>_value_changed\<close> is what keeps it so: the callback
  that sets the flag is the end of its timer, and a timer is started only when the flag
  is down and the timer before it has been cancelled.
\<close>

lemma elapse_one_timer:
  assumes "one_timer self"
  shows "one_timer (elapse now self)"
proof -
  have "\<not> list_ex is_alive (tl (timers self))" using assms by (simp add: one_timer_def)
  from elapse_newest [OF this, of now] show ?thesis
    using assms
    by (auto simp add: one_timer_def refresh_value_def is_alive_def split: list.splits)
qed

lemma cancel_not_alive: "\<not> is_alive (cancel t)"
  by (simp add: cancel_def is_alive_def)

lemma value_changed_one_timer:
  assumes "one_timer self"
    and "\<And>s. refreshing (after (upd s)) = refreshing s \<and> timers (after (upd s)) = timers s"
  shows "one_timer (after (value_changed upd vid now self))"
proof (cases "value_id self = vid \<and> refreshing self")
  case True
  let ?r = "upd (self\<lparr>refreshing := False\<rparr>)"
  have "after (value_changed upd vid now self) =
          (case ?r of Inl (e, s) \<Rightarrow> s | Inr s \<Rightarrow> s\<lparr>calls := calls s @ [Update_ha_state]\<rparr>)"
    using True by (simp add: value_changed_def after_def split: sum.splits prod.splits)
  moreover have "\<not> refreshing (after ?r)" "timers (after ?r) = timers self"
    using assms(2) [of "self\<lparr>refreshing := False\<rparr>"] by simp_all
  ultimately show ?thesis
    using assms(1) True
    by (auto simp add: one_timer_def after_def split: sum.splits prod.splits)
next
  case False
  then show ?thesis
    using assms(1) cancel_not_alive
    by (auto simp add: value_changed_def after_def one_timer_def Let_def is_alive_def
        split: list.splits)
qed

lemma step_event_one_timer:
  assumes "one_timer self"
    and "\<And>vals s. refreshing (after (upd vals s)) = refreshing s \<and>
           timers (after (upd vals s)) = timers s"
    and "\<And>node kw s. refreshing (after (ton node kw s)) = refreshing s \<and>
           timers (after (ton node kw s)) = timers s"
  shows "one_timer (step_event upd ton e self)"
proof (cases e)
  case (Value_changed vid now vals)
  have "one_timer (after (value_changed (upd vals) vid now (elapse now self)))"
    using elapse_one_timer [OF assms(1)] assms(2) by (rule value_changed_one_timer)
  then show ?thesis using Value_changed by (simp add: step_event_def notify_def)
next
  case (Turn_on node kw)
  then show ?thesis using assms(1) assms(3) [of node kw self]
    by (simp add: step_event_def one_timer_def)
next
  case (Turn_off node)
  then show ?thesis using assms(1)
    by (simp add: step_event_def one_timer_def dimmer_turn_off_def Let_def)
next
  case (Elapse now)
  then show ?thesis using elapse_one_timer [OF assms(1)] by (simp add: step_event_def)
qed

lemma run_events_one_timer:
  assumes "one_timer self"
    and "\<And>vals s. refreshing (after (upd vals s)) = refreshing s \<and>
           timers (after (upd vals s)) = timers s"
    and "\<And>node kw s. refreshing (after (ton node kw s)) = refreshing s \<and>
           timers (after (ton node kw s)) = timers s"
  shows "one_timer (run_events upd ton es self)"
  using assms(1)
proof (induction es arbitrary: self)
  case Nil
  then show ?case by simp
next
  case (Cons e es)
  have "one_timer (step_event upd ton e self)"
    using Cons.prems assms(2,3) by (rule step_event_one_timer)
  then show ?case using Cons.IH by simp
qed

lemma dimmer_run_one_timer:
  assumes "new_dimmer vid vals = Inr self"
  shows "one_timer (dimmer_run es self)"
  unfolding dimmer_run_def
proof (rule run_events_one_timer)
  show "one_timer self"
    using assms by (auto simp add: new_dimmer_def ZwaveDimmer_init_def one_timer_def)
  show "refreshing (after (Inr (dimmer_update_properties vals s))) = refreshing s \<and>
        timers (after (Inr (dimmer_update_properties vals s))) = timers s" for vals and s :: zwave_dimmer
    by (simp add: after_def dimmer_update_properties_def split: prod.splits)
  show "refreshing (after (dimmer_turn_on node kw s)) = refreshing s \<and>
        timers (after (dimmer_turn_on node kw s)) = timers s" for node kw and s :: zwave_dimmer
    by (simp add: dimmer_turn_on_frame)
qed

lemma color_run_one_timer:
  assumes "new_color_light cu vid vcolor has_channels vals = Inr self"
  shows "one_timer (color_run cu es self)"
  unfolding color_run_def
proof (rule run_events_one_timer)
  show "one_timer self"
    using assms
    by (auto simp add: new_color_light_def ZwaveDimmer_init_def one_timer_def
        split: option.splits if_splits sum.splits prod.splits)
  show "refreshing (after (color_update_properties cu vals s)) = refreshing s \<and>
        timers (after (color_update_properties cu vals s)) = timers s" for vals s
    by (simp add: color_update_frame)
  show "refreshing (after (color_turn_on cu node kw s)) = refreshing s \<and>
        timers (after (color_turn_on cu node kw s)) = timers s" for node kw s
    by (simp add: color_turn_on_frame)
qed

text \<open>
  While no refresh is in flight, a matching notification cancels the newest timer if
  it waits and starts one that is due two seconds later; a burst leaves its last timer
  waiting and all the timers before it cancelled.
\<close>

lemma map_cancel_idle: "\<not> list_ex is_alive ts \<Longrightarrow> map cancel ts = ts"
  by (induction ts) (auto simp add: cancel_def is_alive_def)

lemma cancel_newest:
  assumes "\<not> list_ex is_alive older"
  shows "(if is_alive t then cancel t # older else t # older) = map cancel (t # older)"
  using map_cancel_idle [OF assms] by (simp add: cancel_def is_alive_def)

lemma value_changed_idle:
  assumes "\<not> refreshing self" and "value_id self = vid"
    and "\<not> list_ex is_alive (tl (timers self))"
  shows "value_changed upd vid now self =
           Inr (self\<lparr>timers := \<lparr>due = now + 2, status = Waiting\<rparr> # map cancel (timers self),
                     calls := calls self @ [Update_ha_state]\<rparr>)"
proof (cases "timers self")
  case Nil
  then show ?thesis using assms(1,2) by (simp add: value_changed_def)
next
  case (Cons t older)
  then have "\<not> list_ex is_alive older" using assms(3) by simp
  from cancel_newest [OF this, of t] show ?thesis
    using assms(1,2) Cons by (auto simp add: value_changed_def Let_def)
qed

lemma notify_pending:
  assumes "\<not> refreshing self" and "value_id self = vid"
    and "\<not> list_ex is_alive (tl (timers self))"
    and "\<forall>t \<in> set (timers self). is_alive t \<longrightarrow> now < due t"
  shows "notify upd vid now self =
           Inr (self\<lparr>timers := \<lparr>due = now + 2, status = Waiting\<rparr> # map cancel (timers self),
                     calls := calls self @ [Update_ha_state]\<rparr>)"
proof -
  have "\<not> list_ex (\<lambda>t. is_alive t \<and> due t \<le> now) (timers self)"
    using assms(4) by (auto simp add: list_ex_iff)
  then have "elapse now self = self" by (rule elapse_idle)
  then show ?thesis using assms(1-3) by (simp add: notify_def value_changed_idle)
qed

lemma notify_all_burst:
  assumes "burst (t # ts)" and "\<not> refreshing self" and "value_id self = vid"
    and "\<not> list_ex is_alive (tl (timers self))"
    and "\<forall>u \<in> set (timers self). is_alive u \<longrightarrow> t < due u"
  shows "notify_all upd vid (t # ts) self =
           self\<lparr>timers := \<lparr>due = last (t # ts) + 2, status = Waiting\<rparr> #
                            map (\<lambda>u. \<lparr>due = u + 2, status = Cancelled\<rparr>) (rev (butlast (t # ts))) @
                            map cancel (timers self),
                calls := calls self @ replicate (length (t # ts)) Update_ha_state\<rparr>"
  using assms
proof (induction ts arbitrary: t self)
  case Nil
  then show ?case by (simp add: notify_pending after_def)
next
  case (Cons u ts)
  let ?s = "self\<lparr>timers := \<lparr>due = t + 2, status = Waiting\<rparr> # map cancel (timers self),
                   calls := calls self @ [Update_ha_state]\<rparr>"
  have step: "notify upd vid t self = Inr ?s"
    using Cons.prems by (simp add: notify_pending)
  have quiet: "\<not> list_ex is_alive (map cancel (timers self))"
    by (simp add: list_ex_iff cancel_not_alive)
  have "notify_all upd vid (u # ts) ?s =
          ?s\<lparr>timers := \<lparr>due = last (u # ts) + 2, status = Waiting\<rparr> #
                          map (\<lambda>u. \<lparr>due = u + 2, status = Cancelled\<rparr>) (rev (butlast (u # ts))) @
                          map cancel (timers ?s),
              calls := calls ?s @ replicate (length (u # ts)) Update_ha_state\<rparr>"
  proof (rule Cons.IH)
    show "burst (u # ts)" using Cons.prems(1) by simp
    show "\<not> refreshing ?s" using Cons.prems(2) by simp
    show "value_id ?s = vid" using Cons.prems(3) by simp
    show "\<not> list_ex is_alive (tl (timers ?s))" using quiet by simp
    show "\<forall>w \<in> set (timers ?s). is_alive w \<longrightarrow> u < due w"
      using Cons.prems(1) quiet by (auto simp add: list_ex_iff)
  qed
  moreover have "map cancel (map cancel (timers self)) = map cancel (timers self)"
    using quiet by (rule map_cancel_idle)
  ultimately show ?case
    using step by (simp add: after_def replicate_append_same cancel_def)
qed

lemma burst_refresh:
  assumes "ts \<noteq> []" and "burst ts"
    and "one_timer self" and "\<not> refreshing self"
    and "\<forall>u \<in> set (timers self). is_alive u \<longrightarrow> hd ts < due u"
  shows "timers (notify_all upd (value_id self) ts self) =
           \<lparr>due = last ts + 2, status = Waiting\<rparr> #
           map (\<lambda>u. \<lparr>due = u + 2, status = Cancelled\<rparr>) (rev (butlast ts)) @
           map cancel (timers self)"
    and "calls (notify_all upd (value_id self) ts self) =
           calls self @ replicate (length ts) Update_ha_state"
    and "now < last ts + 2 \<Longrightarrow>
           elapse now (notify_all upd (value_id self) ts self) =
           notify_all upd (value_id self) ts self"
    and "last ts + 2 \<le> now \<Longrightarrow>
           filter is_refresh (calls (elapse now (notify_all upd (value_id self) ts self))) =
           filter is_refresh (calls self) @ [Value_refresh (value_id self) (last ts + 2)]"
    and "last ts + 2 \<le> now \<Longrightarrow>
           phase_of (elapse now (notify_all upd (value_id self) ts self)) = REFRESHING"
    and "last ts + 2 \<le> now \<Longrightarrow>
           \<not> list_ex is_alive (timers (elapse now (notify_all upd (value_id self) ts self)))"
proof -
  obtain t us where ts: "ts = t # us" using assms(1) by (cases ts) auto
  let ?old = "map (\<lambda>u. \<lparr>due = u + 2, status = Cancelled\<rparr>) (rev (butlast ts)) @
              map cancel (timers self)"
  let ?s = "self\<lparr>timers := \<lparr>due = last ts + 2, status = Waiting\<rparr> # ?old,
                   calls := calls self @ replicate (length ts) Update_ha_state\<rparr>"
  have b: "burst (t # us)" using assms(2) by (simp add: ts)
  have q: "\<not> list_ex is_alive (tl (timers self))" using assms(3) by (simp add: one_timer_def)
  have d: "\<forall>u \<in> set (timers self). is_alive u \<longrightarrow> t < due u" using assms(5) by (simp add: ts)
  have run: "notify_all upd (value_id self) ts self = ?s"
    unfolding ts using b assms(4) refl q d by (rule notify_all_burst)
  have old: "\<not> list_ex is_alive ?old"
    using cancel_not_alive by (auto simp add: list_ex_iff is_alive_def)
  show "timers (notify_all upd (value_id self) ts self) =
          \<lparr>due = last ts + 2, status = Waiting\<rparr> # ?old"
    by (simp add: run)
  show "calls (notify_all upd (value_id self) ts self) =
          calls self @ replicate (length ts) Update_ha_state"
    by (simp add: run)
  have newest: "elapse now ?s =
      (if last ts + 2 \<le> now
       then refresh_value (last ts + 2) (?s\<lparr>timers := \<lparr>due = last ts + 2, status = Fired\<rparr> # ?old\<rparr>)
       else ?s)"
    using elapse_newest [of ?s now] old by (simp add: is_alive_def)
  show "elapse now (notify_all upd (value_id self) ts self) =
          notify_all upd (value_id self) ts self" if "now < last ts + 2"
    using that newest by (simp add: run)
  show "filter is_refresh (calls (elapse now (notify_all upd (value_id self) ts self))) =
          filter is_refresh (calls self) @ [Value_refresh (value_id self) (last ts + 2)]"
    if "last ts + 2 \<le> now"
    using that newest by (simp add: run refresh_value_def is_refresh_def)
  show "phase_of (elapse now (notify_all upd (value_id self) ts self)) = REFRESHING"
    if "last ts + 2 \<le> now"
    using that newest by (simp add: run refresh_value_def phase_of_def)
  show "\<not> list_ex is_alive (timers (elapse now (notify_all upd (value_id self) ts self)))"
    if "last ts + 2 \<le> now"
    using that newest old by (simp add: run refresh_value_def is_alive_def)
qed

text \<open>
  C8. Take a state that a dimmer or a colour light has reached, with no refresh in
  flight, and a burst of matching notifications, each less than two seconds after the
  one before, that starts before a timer that waits is due. Every notification of the
  burst cancels the timer that waits and starts a fresh one, due two seconds after it:
  afterwards the timer of the last notification waits, the timers of the notifications
  before it and the one that waited before the burst are cancelled, and no refresh
  request has been issued. Less than two seconds after the last notification nothing
  has happened; from then on exactly one refresh request has been issued, two seconds
  after the last notification, the refresh is in flight and no timer waits.
\<close>

theorem burst_one_refresh:
  "(new_dimmer vid vals0 = Inr d0 \<and> dimmer_run es d0 = d \<and>
    ts \<noteq> [] \<and> burst ts \<and> \<not> refreshing d \<and>
    (\<forall>u \<in> set (timers d). is_alive u \<longrightarrow> hd ts < due u)
    \<longrightarrow>
      timers (notify_all upd (value_id d) ts d) =
        \<lparr>due = last ts + 2, status = Waiting\<rparr> #
        map (\<lambda>u. \<lparr>due = u + 2, status = Cancelled\<rparr>) (rev (butlast ts)) @
        map cancel (timers d) \<and>
      filter is_refresh (calls (notify_all upd (value_id d) ts d)) =
        filter is_refresh (calls d) \<and>
      (now < last ts + 2 \<longrightarrow>
         elapse now (notify_all upd (value_id d) ts d) = notify_all upd (value_id d) ts d) \<and>
      (last ts + 2 \<le> now \<longrightarrow>
         filter is_refresh (calls (elapse now (notify_all upd (value_id d) ts d))) =
           filter is_refresh (calls d) @ [Value_refresh (value_id d) (last ts + 2)] \<and>
         phase_of (elapse now (notify_all upd (value_id d) ts d)) = REFRESHING \<and>
         \<not> list_ex is_alive (timers (elapse now (notify_all upd (value_id d) ts d))))) \<and>
   (new_color_light cu cvid vcolor has_channels cvals0 = Inr c0 \<and> color_run cu ces c0 = c \<and>
    ts \<noteq> [] \<and> burst ts \<and> \<not> refreshing c \<and>
    (\<forall>u \<in> set (timers c). is_alive u \<longrightarrow> hd ts < due u)
    \<longrightarrow>
      timers (notify_all cupd (value_id c) ts c) =
        \<lparr>due = last ts + 2, status = Waiting\<rparr> #
        map (\<lambda>u. \<lparr>due = u + 2, status = Cancelled\<rparr>) (rev (butlast ts)) @
        map cancel (timers c) \<and>
      filter is_refresh (calls (notify_all cupd (value_id c) ts c)) =
        filter is_refresh (calls c) \<and>
      (now < last ts + 2 \<longrightarrow>
         elapse now (notify_all cupd (value_id c) ts c) = notify_all cupd (value_id c) ts c) \<and>
      (last ts + 2 \<le> now \<longrightarrow>
         filter is_refresh (calls (elapse now (notify_all cupd (value_id c) ts c))) =
           filter is_refresh (calls c) @ [Value_refresh (value_id c) (last ts + 2)] \<and>
         phase_of (elapse now (notify_all cupd (value_id c) ts c)) = REFRESHING \<and>
         \<not> list_ex is_alive (timers (elapse now (notify_all cupd (value_id c) ts c)))))"
proof (intro conjI impI; elim conjE)
  assume new: "new_dimmer vid vals0 = Inr d0" and run: "dimmer_run es d0 = d"
    and ts: "ts \<noteq> []" "burst ts" and idle: "\<not> refreshing d"
    and later: "\<forall>u \<in> set (timers d). is_alive u \<longrightarrow> hd ts < due u"
  have one: "one_timer d" using dimmer_run_one_timer [OF new, of es] run by simp
  note r = burst_refresh [OF ts one idle later, where upd = upd]
  show "timers (notify_all upd (value_id d) ts d) =
        \<lparr>due = last ts + 2, status = Waiting\<rparr> #
        map (\<lambda>u. \<lparr>due = u + 2, status = Cancelled\<rparr>) (rev (butlast ts)) @
        map cancel (timers d)" by (rule r(1))
  show "filter is_refresh (calls (notify_all upd (value_id d) ts d)) =
        filter is_refresh (calls d)" by (simp add: r(2) is_refresh_def)
  show "elapse now (notify_all upd (value_id d) ts d) = notify_all upd (value_id d) ts d"
    if "now < last ts + 2" using that by (rule r(3))
  show "filter is_refresh (calls (elapse now (notify_all upd (value_id d) ts d))) =
           filter is_refresh (calls d) @ [Value_refresh (value_id d) (last ts + 2)]"
    if "last ts + 2 \<le> now" using that by (rule r(4))
  show "phase_of (elapse now (notify_all upd (value_id d) ts d)) = REFRESHING"
    if "last ts + 2 \<le> now" using that by (rule r(5))
  show "\<not> list_ex is_alive (timers (elapse now (notify_all upd (value_id d) ts d)))"
    if "last ts + 2 \<le> now" using that by (rule r(6))
next
  assume new: "new_color_light cu cvid vcolor has_channels cvals0 = Inr c0"
    and run: "color_run cu ces c0 = c"
    and ts: "ts \<noteq> []" "burst ts" and idle: "\<not> refreshing c"
    and later: "\<forall>u \<in> set (timers c). is_alive u \<longrightarrow> hd ts < due u"
  have one: "one_timer c" using color_run_one_timer [OF new, of ces] run by simp
  note r = burst_refresh [OF ts one idle later, where upd = cupd]
  show "timers (notify_all cupd (value_id c) ts c) =
        \<lparr>due = last ts + 2, status = Waiting\<rparr> #
        map (\<lambda>u. \<lparr>due = u + 2, status = Cancelled\<rparr>) (rev (butlast ts)) @
        map cancel (timers c)" by (rule r(1))
  show "filter is_refresh (calls (notify_all cupd (value_id c) ts c)) =
        filter is_refresh (calls c)" by (simp add: r(2) is_refresh_def)
  show "elapse now (notify_all cupd (value_id c) ts c) = notify_all cupd (value_id c) ts c"
    if "now < last ts + 2" using that by (rule r(3))
  show "filter is_refresh (calls (elapse now (notify_all cupd (value_id c) ts c))) =
           filter is_refresh (calls c) @ [Value_refresh (value_id c) (last ts + 2)]"
    if "last ts + 2 \<le> now" using that by (rule r(4))
  show "phase_of (elapse now (notify_all cupd (value_id c) ts c)) = REFRESHING"
    if "last ts + 2 \<le> now" using that by (rule r(5))
  show "\<not> list_ex is_alive (timers (elapse now (notify_all cupd (value_id c) ts c)))"
    if "last ts + 2 \<le> now" using that by (rule r(6))
qed

theorem burst_one_refresh_witness:
  "new_dimmer 1 (sample_values [] 0) = Inr sample_dimmer \<and>
   dimmer_run [Value_changed 1 (- 1) (sample_values [] 0)] sample_dimmer =
     sample_dimmer\<lparr>timers := [\<lparr>due = 1, status = Waiting\<rparr>], calls := [Update_ha_state]\<rparr> \<and>
   timers (notify_all Inr 1 [0, 1 / 2, 1]
             (sample_dimmer\<lparr>timers := [\<lparr>due = 1, status = Waiting\<rparr>],
                calls := [Update_ha_state]\<rparr>)) =
     [\<lparr>due = 3, status = Waiting\<rparr>, \<lparr>due = 5 / 2, status = Cancelled\<rparr>,
      \<lparr>due = 2, status = Cancelled\<rparr>, \<lparr>due = 1, status = Cancelled\<rparr>] \<and>
   filter is_refresh
     (calls (elapse 3 (notify_all Inr 1 [0, 1 / 2, 1]
                         (sample_dimmer\<lparr>timers := [\<lparr>due = 1, status = Waiting\<rparr>],
                            calls := [Update_ha_state]\<rparr>)))) =
     [Value_refresh 1 3] \<and>
   new_color_light sample_util 1 (Some 2) True (sample_values ''#1A2B3C'' 28) =
     Inr ((sample_light 28)\<lparr>rgb := Some [26, 43, 60]\<rparr>) \<and>
   timers (notify_all Inr 1 [0, 1 / 2, 1] ((sample_light 28)\<lparr>rgb := Some [26, 43, 60]\<rparr>)) =
     [\<lparr>due = 3, status = Waiting\<rparr>, \<lparr>due = 5 / 2, status = Cancelled\<rparr>,
      \<lparr>due = 2, status = Cancelled\<rparr>] \<and>
   filter is_refresh
     (calls (elapse 3 (notify_all Inr 1 [0, 1 / 2, 1]
                         ((sample_light 28)\<lparr>rgb := Some [26, 43, 60]\<rparr>)))) =
     [Value_refresh 1 3]"
proof -
  let ?d = "sample_dimmer\<lparr>timers := [\<lparr>due = 1, status = Waiting\<rparr>], calls := [Update_ha_state]\<rparr>"
  let ?c = "(sample_light 28)\<lparr>rgb := Some [26, 43, 60]\<rparr>"
  have nd: "new_dimmer 1 (sample_values [] 0) = Inr sample_dimmer"
    by code_simp
  have rd: "dimmer_run [Value_changed 1 (- 1) (sample_values [] 0)] sample_dimmer = ?d"
    by code_simp
  have nc: "new_color_light sample_util 1 (Some 2) True (sample_values ''#1A2B3C'' 28) = Inr ?c"
    by code_simp
  have rc: "color_run sample_util [] ?c = ?c"
    by (simp add: color_run_def)
  have h: "[0, 1 / 2, 1 :: rat] \<noteq> []" "burst [0, 1 / 2, 1]"
    "\<not> refreshing ?d" "\<forall>u \<in> set (timers ?d). is_alive u \<longrightarrow> hd [0, 1 / 2, 1] < due u"
    "\<not> refreshing ?c" "\<forall>u \<in> set (timers ?c). is_alive u \<longrightarrow> hd [0, 1 / 2, 1] < due u"
    by (simp_all add: sample_dimmer_def sample_light_def)
  have v: "value_id ?d = 1" "value_id ?c = 1" "calls ?d = [Update_ha_state]" "calls ?c = []"
    "map cancel (timers ?d) = [\<lparr>due = 1, status = Cancelled\<rparr>]" "map cancel (timers ?c) = []"
    by (simp_all add: sample_dimmer_def sample_light_def cancel_def)
  show ?thesis
    using nd rd nc rc h
      burst_one_refresh [where vid = 1 and ?vals0.0 = "sample_values [] 0"
        and ?d0.0 = sample_dimmer
        and es = "[Value_changed 1 (- 1) (sample_values [] 0)]" and d = ?d
        and ts = "[0, 1 / 2, 1]" and upd = Inr and now = 3
        and cu = sample_util and cvid = 1 and vcolor = "Some 2" and has_channels = True
        and ?cvals0.0 = "sample_values ''#1A2B3C'' 28" and ?c0.0 = ?c and ces = "[]"
        and c = ?c and cupd = Inr]
    unfolding v
    by (simp add: is_refresh_def)
qed

text \<open>
  C9. Take a state that a dimmer or a colour light has reached in which a refresh is
  in flight, and a matching notification. The flag is cleared, the brightness and the
  on/off state are read from the value, no timer is started, so that the refresher is
  idle, and no refresh request is issued. For the dimmer the method returns, and its
  only call is the state-changed callback of the host. For the colour light it returns
  in the same way, with the colour fields that \<^verbatim>\<open>update_properties\<close> has read,
  when the payload can be read; when it cannot, \<^verbatim>\<open>update_properties\<close> raises after
  the flag is cleared and the brightness is read, the host is not called, and the
  refresher is idle all the same.
\<close>

theorem notification_while_refreshing:
  "(new_dimmer vid vals0 = Inr d0 \<and> dimmer_run es d0 = d \<and> refreshing d
    \<longrightarrow>
      phase_of d = REFRESHING \<and>
      (\<exists>d'. value_changed (\<lambda>s. Inr (dimmer_update_properties vals s)) (value_id d) now d =
              Inr d' \<and>
            phase_of d' = IDLE \<and> \<not> refreshing d' \<and> timers d' = timers d \<and>
            (brightness d', state d') =
              (Some (fst (brightness_state (value_data vals))),
               Some (snd (brightness_state (value_data vals)))) \<and>
            calls d' = calls d @ [Update_ha_state])) \<and>
   (new_color_light cu cvid vcolor has_channels cvals0 = Inr c0 \<and> color_run cu ces c0 = c \<and>
    refreshing c
    \<longrightarrow>
      phase_of c = REFRESHING \<and>
      phase_of (after (value_changed (color_update_properties cu vals) (value_id c) now c)) =
        IDLE \<and>
      \<not> refreshing (after (value_changed (color_update_properties cu vals) (value_id c) now c)) \<and>
      timers (after (value_changed (color_update_properties cu vals) (value_id c) now c)) =
        timers c \<and>
      (brightness (after (value_changed (color_update_properties cu vals) (value_id c) now c)),
       state (after (value_changed (color_update_properties cu vals) (value_id c) now c))) =
        (Some (fst (brightness_state (value_data vals))),
         Some (snd (brightness_state (value_data vals)))) \<and>
      (case value_changed (color_update_properties cu vals) (value_id c) now c of
         Inr c' \<Rightarrow>
           calls c' = calls c @ [Update_ha_state] \<and>
           color_update_properties cu vals (c\<lparr>refreshing := False\<rparr>) =
             Inr (c'\<lparr>calls := calls c\<rparr>)
       | Inl (e, c') \<Rightarrow>
           calls c' = calls c \<and>
           color_update_properties cu vals (c\<lparr>refreshing := False\<rparr>) = Inl (e, c')))"
proof (intro conjI impI; elim conjE)
  assume new: "new_dimmer vid vals0 = Inr d0" and run: "dimmer_run es d0 = d"
    and fl: "refreshing d"
  have one: "one_timer d" using dimmer_run_one_timer [OF new, of es] run by simp
  then have quiet: "\<not> list_ex is_alive (timers d)" using fl by (simp add: one_timer_def)
  show "phase_of d = REFRESHING" using fl by (simp add: phase_of_def)
  show "\<exists>d'. value_changed (\<lambda>s. Inr (dimmer_update_properties vals s)) (value_id d) now d =
              Inr d' \<and>
            phase_of d' = IDLE \<and> \<not> refreshing d' \<and> timers d' = timers d \<and>
            (brightness d', state d') =
              (Some (fst (brightness_state (value_data vals))),
               Some (snd (brightness_state (value_data vals)))) \<and>
            calls d' = calls d @ [Update_ha_state]"
    using fl quiet
    by (simp add: value_changed_def phase_of_def dimmer_update_properties_def split: prod.splits)
next
  assume new: "new_color_light cu cvid vcolor has_channels cvals0 = Inr c0"
    and run: "color_run cu ces c0 = c" and fl: "refreshing c"
  let ?u = "color_update_properties cu vals (c\<lparr>refreshing := False\<rparr>)"
  let ?r = "value_changed (color_update_properties cu vals) (value_id c) now c"
  have one: "one_timer c" using color_run_one_timer [OF new, of ces] run by simp
  then have quiet: "\<not> list_ex is_alive (timers c)" using fl by (simp add: one_timer_def)
  have r: "?r = (case ?u of Inl (e, s) \<Rightarrow> Inl (e, s)
                 | Inr s \<Rightarrow> Inr (s\<lparr>calls := calls s @ [Update_ha_state]\<rparr>))"
    using fl by (simp add: value_changed_refreshing)
  have u: "refreshing (after ?u) = False" "timers (after ?u) = timers c"
    "calls (after ?u) = calls c"
    "(brightness (after ?u), state (after ?u)) =
       (Some (fst (brightness_state (value_data vals))),
        Some (snd (brightness_state (value_data vals))))"
    using color_update_frame [of cu vals "c\<lparr>refreshing := False\<rparr>"] by simp_all
  show "phase_of c = REFRESHING" using fl by (simp add: phase_of_def)
  show "phase_of (after ?r) = IDLE"
    using u quiet unfolding r by (auto simp add: after_def phase_of_def split: sum.splits)
  show "\<not> refreshing (after ?r)"
    using u unfolding r by (auto simp add: after_def split: sum.splits)
  show "timers (after ?r) = timers c"
    using u unfolding r by (auto simp add: after_def split: sum.splits)
  show "(brightness (after ?r), state (after ?r)) =
        (Some (fst (brightness_state (value_data vals))),
         Some (snd (brightness_state (value_data vals))))"
    using u unfolding r by (auto simp add: after_def split: sum.splits)
  show "case ?r of
         Inr c' \<Rightarrow>
           calls c' = calls c @ [Update_ha_state] \<and> ?u = Inr (c'\<lparr>calls := calls c\<rparr>)
       | Inl (e, c') \<Rightarrow> calls c' = calls c \<and> ?u = Inl (e, c')"
    using u unfolding r by (auto simp add: after_def split: sum.splits)
qed

theorem notification_while_refreshing_witness:
  "new_dimmer 1 (sample_values [] 0) = Inr sample_dimmer \<and>
   dimmer_run [Value_changed 1 0 (sample_values [] 0), Elapse 2] sample_dimmer =
     sample_dimmer\<lparr>refreshing := True, timers := [\<lparr>due = 2, status = Fired\<rparr>],
       calls := [Update_ha_state, Value_refresh 1 2]\<rparr> \<and>
   value_changed
     (\<lambda>s. Inr (dimmer_update_properties ((sample_values ''#1A2B'' 28)\<lparr>value_data := 50\<rparr>) s))
     1 (5 / 2)
     (sample_dimmer\<lparr>refreshing := True, timers := [\<lparr>due = 2, status = Fired\<rparr>],
        calls := [Update_ha_state, Value_refresh 1 2]\<rparr>) =
     Inr (sample_dimmer\<lparr>brightness := Some (2265660323902061 / 17592186044416),
            state := Some STATE_ON, timers := [\<lparr>due = 2, status = Fired\<rparr>],
            calls := [Update_ha_state, Value_refresh 1 2, Update_ha_state]\<rparr>) \<and>
   phase_of
     (sample_dimmer\<lparr>brightness := Some (2265660323902061 / 17592186044416),
        state := Some STATE_ON, timers := [\<lparr>due = 2, status = Fired\<rparr>],
        calls := [Update_ha_state, Value_refresh 1 2, Update_ha_state]\<rparr>) = IDLE \<and>
   new_color_light sample_util 1 (Some 2) True (sample_values ''#1A2B3C'' 28) =
     Inr ((sample_light 28)\<lparr>rgb := Some [26, 43, 60]\<rparr>) \<and>
   color_run sample_util [Value_changed 1 0 (sample_values ''#1A2B3C'' 28), Elapse 2]
     ((sample_light 28)\<lparr>rgb := Some [26, 43, 60]\<rparr>) =
     (sample_light 28)\<lparr>rgb := Some [26, 43, 60], refreshing := True,
       timers := [\<lparr>due = 2, status = Fired\<rparr>],
       calls := [Update_ha_state, Value_refresh 1 2]\<rparr> \<and>
   value_changed
     (color_update_properties sample_util ((sample_values ''#1A2B'' 28)\<lparr>value_data := 50\<rparr>))
     1 (5 / 2)
     ((sample_light 28)\<lparr>rgb := Some [26, 43, 60], refreshing := True,
        timers := [\<lparr>due = 2, status = Fired\<rparr>],
        calls := [Update_ha_state, Value_refresh 1 2]\<rparr>) =
     Inl (ValueError,
          (sample_light 28)\<lparr>rgb := Some [26, 43, 60],
            brightness := Some (2265660323902061 / 17592186044416), state := Some STATE_ON,
            timers := [\<lparr>due = 2, status = Fired\<rparr>],
            calls := [Update_ha_state, Value_refresh 1 2]\<rparr>) \<and>
   phase_of
     ((sample_light 28)\<lparr>rgb := Some [26, 43, 60],
        brightness := Some (2265660323902061 / 17592186044416), state := Some STATE_ON,
        timers := [\<lparr>due = 2, status = Fired\<rparr>],
        calls := [Update_ha_state, Value_refresh 1 2]\<rparr>) = IDLE"
proof -
  let ?v = "(sample_values ''#1A2B'' 28)\<lparr>value_data := 50\<rparr>"
  let ?d = "sample_dimmer\<lparr>refreshing := True, timers := [\<lparr>due = 2, status = Fired\<rparr>],
       calls := [Update_ha_state, Value_refresh 1 2]\<rparr>"
  let ?d' = "sample_dimmer\<lparr>brightness := Some (2265660323902061 / 17592186044416),
            state := Some STATE_ON, timers := [\<lparr>due = 2, status = Fired\<rparr>],
            calls := [Update_ha_state, Value_refresh 1 2, Update_ha_state]\<rparr>"
  let ?fresh = "(sample_light 28)\<lparr>rgb := Some [26, 43, 60]\<rparr>"
  let ?c = "(sample_light 28)\<lparr>rgb := Some [26, 43, 60], refreshing := True,
       timers := [\<lparr>due = 2, status = Fired\<rparr>],
       calls := [Update_ha_state, Value_refresh 1 2]\<rparr>"
  let ?c' = "(sample_light 28)\<lparr>rgb := Some [26, 43, 60],
            brightness := Some (2265660323902061 / 17592186044416), state := Some STATE_ON,
            timers := [\<lparr>due = 2, status = Fired\<rparr>],
            calls := [Update_ha_state, Value_refresh 1 2]\<rparr>"
  have nd: "new_dimmer 1 (sample_values [] 0) = Inr sample_dimmer"
    by code_simp
  have rd: "dimmer_run [Value_changed 1 0 (sample_values [] 0), Elapse 2] sample_dimmer = ?d"
    by code_simp
  have vd: "value_changed (\<lambda>s. Inr (dimmer_update_properties ?v s)) 1 (5 / 2) ?d = Inr ?d'"
    by code_simp
  have nc: "new_color_light sample_util 1 (Some 2) True (sample_values ''#1A2B3C'' 28) = Inr ?fresh"
    by code_simp
  have rc: "color_run sample_util [Value_changed 1 0 (sample_values ''#1A2B3C'' 28), Elapse 2] ?fresh
      = ?c"
    by code_simp
  have vc: "value_changed (color_update_properties sample_util ?v) 1 (5 / 2) ?c =
      Inl (ValueError, ?c')"
    by code_simp
  have f: "refreshing ?d" "refreshing ?c" "value_id ?d = 1" "value_id ?c = 1"
    by (simp_all add: sample_dimmer_def sample_light_def)
  have "phase_of ?d' = IDLE \<and> phase_of ?c' = IDLE"
    using nd rd nc rc f(1,2) vd vc
      notification_while_refreshing [where vid = 1 and ?vals0.0 = "sample_values [] 0"
        and ?d0.0 = sample_dimmer
        and es = "[Value_changed 1 0 (sample_values [] 0), Elapse 2]" and d = ?d
        and vals = ?v and now = "5 / 2"
        and cu = sample_util and cvid = 1 and vcolor = "Some 2" and has_channels = True
        and ?cvals0.0 = "sample_values ''#1A2B3C'' 28" and ?c0.0 = ?fresh
        and ces = "[Value_changed 1 0 (sample_values ''#1A2B3C'' 28), Elapse 2]" and c = ?c]
    unfolding f(3,4)
    by (auto simp add: after_def)
  then show ?thesis using nd rd vd nc rc vc by simp
qed

end
